theory Spec2Isabelle
  imports Main "HOL-Library.Sublist" "HOL-Library.Word" "HOL-Library.Signed_Division"
begin

section \<open>Strings and paths of the Go standard library\<close>

text \<open>
  Go strings are byte sequences: \<^typ>\<open>string\<close>. The functions of packages
  \<^verbatim>\<open>strings\<close> and \<^verbatim>\<open>path/filepath\<close> that the sources call are written out
  here after their documented behaviour on Unix (separator \<^verbatim>\<open>/\<close>, no volume names).
\<close>

definition HasPrefix :: "string \<Rightarrow> string \<Rightarrow> bool" where
  "HasPrefix s pre = prefix pre s"

definition TrimPrefix :: "string \<Rightarrow> string \<Rightarrow> string" where
  "TrimPrefix s pre = (if HasPrefix s pre then drop (length pre) s else s)"

text \<open>\<^verbatim>\<open>strings.Split(s, sep)\<close> for a one-byte separator: n separators give n + 1 pieces.\<close>

fun Split :: "string \<Rightarrow> char \<Rightarrow> string list" where
  "Split [] sep = [[]]"
| "Split (c # cs) sep =
     (if c = sep then [] # Split cs sep
      else (case Split cs sep of [] \<Rightarrow> [[c]] | w # ws \<Rightarrow> (c # w) # ws))"

text \<open>\<^verbatim>\<open>strings.Join(elems, sep)\<close>.\<close>

fun JoinStr :: "string list \<Rightarrow> string \<Rightarrow> string" where
  "JoinStr [] sep = []"
| "JoinStr [x] sep = x"
| "JoinStr (x # y # ys) sep = x @ sep @ JoinStr (y # ys) sep"

definition IsAbs :: "string \<Rightarrow> bool" where
  "IsAbs p = HasPrefix p ''/''"

text \<open>
  \<^verbatim>\<open>filepath.Clean\<close>: empty and \<^verbatim>\<open>.\<close> elements vanish, an inner \<^verbatim>\<open>..\<close> removes the
  element before it, \<^verbatim>\<open>..\<close> at the start of a rooted path vanishes, the empty result
  is \<^verbatim>\<open>.\<close>. The elements kept so far are held last first.
\<close>

definition cleanStep :: "bool \<Rightarrow> string list \<Rightarrow> string \<Rightarrow> string list" where
  "cleanStep rooted st c =
     (if c = [] \<or> c = ''.'' then st
      else if c = ''..'' then
        (case st of
           [] \<Rightarrow> if rooted then [] else [''..'']
         | t # ts \<Rightarrow> if t = ''..'' then ''..'' # st else ts)
      else c # st)"

definition Clean :: "string \<Rightarrow> string" where
  "Clean p =
     (if p = [] then ''.''
      else
        let rooted = IsAbs p;
            st = foldl (cleanStep rooted) [] (Split p CHR ''/'');
            out = (if rooted then ''/'' else []) @ JoinStr (rev st) ''/''
        in if out = [] then ''.'' else out)"

text \<open>\<^verbatim>\<open>filepath.Join\<close>: leading empty elements are skipped, the rest is joined and cleaned.\<close>

definition Join :: "string list \<Rightarrow> string" where
  "Join elems =
     (case dropWhile (\<lambda>e. e = []) elems of
        [] \<Rightarrow> []
      | es \<Rightarrow> Clean (JoinStr es ''/''))"

section \<open>Numbers as text\<close>

type_synonym int64 = "64 word"
type_synonym uint32 = "32 word"

text \<open>The decimal digits of a number that is not negative.\<close>

function digitsOf :: "int \<Rightarrow> string" where
  "digitsOf n = (if n < 10 then [''0123456789'' ! nat n]
                 else digitsOf (n div 10) @ [''0123456789'' ! nat (n mod 10)])"
  by pat_completeness auto
termination
  by (relation "measure nat") auto

declare digitsOf.simps [simp del]

text \<open>\<^verbatim>\<open>strconv.Itoa\<close>, and \<^verbatim>\<open>%v\<close> and \<^verbatim>\<open>%d\<close> for an integer.\<close>

definition Itoa :: "int \<Rightarrow> string" where
  "Itoa i = (if i < 0 then CHR ''-'' # digitsOf (- i) else digitsOf i)"

datatype num_error = ErrSyntax | ErrRange

definition isDigit :: "char \<Rightarrow> bool" where
  "isDigit c = (c \<in> set ''0123456789'')"

definition digitVal :: "char \<Rightarrow> int" where
  "digitVal c = of_char c - 48"

text \<open>
  \<^verbatim>\<open>strconv.ParseUint(s, 10, 64)\<close> from the digit it has reached: a byte that is no
  digit is a syntax error, a value beyond 64 bits (above 18446744073709551615) a range
  error, whichever comes first.
\<close>

fun parseUint :: "int \<Rightarrow> string \<Rightarrow> num_error + int" where
  "parseUint n [] = Inr n"
| "parseUint n (c # cs) =
     (if \<not> isDigit c then Inl ErrSyntax
      else if n * 10 + digitVal c > 18446744073709551615 then Inl ErrRange
      else parseUint (n * 10 + digitVal c) cs)"

text \<open>
  \<^verbatim>\<open>strconv.Atoi\<close> for a 64-bit \<^verbatim>\<open>int\<close>: an optional sign, then decimal digits; the
  value lies between -9223372036854775808 and 9223372036854775807.
\<close>

definition Atoi :: "string \<Rightarrow> num_error + int" where
  "Atoi s =
     (let neg = HasPrefix s ''-'';
          body = (if HasPrefix s ''-'' \<or> HasPrefix s ''+'' then drop 1 s else s)
      in if body = [] then Inl ErrSyntax
         else
           (case parseUint 0 body of
              Inl e \<Rightarrow> Inl e
            | Inr un \<Rightarrow>
                if \<not> neg \<and> un \<ge> 9223372036854775808 then Inl ErrRange
                else if neg \<and> un > 9223372036854775808 then Inl ErrRange
                else Inr (if neg then - un else un)))"

section \<open>Unit options\<close>

text \<open>\<^verbatim>\<open>unit.UnitOption\<close> of go-systemd: a section, a key and a value.\<close>

record UnitOption =
  Section :: string
  Name :: string
  Value :: string

definition NewUnitOption :: "string \<Rightarrow> string \<Rightarrow> string \<Rightarrow> UnitOption" where
  "NewUnitOption section name value = \<lparr>Section = section, Name = name, Value = value\<rparr>"

section \<open>Quantities\<close>

text \<open>
  Modelled from the spec: \<^verbatim>\<open>resource.Quantity\<close> and \<^verbatim>\<open>resource.MaxMilliValue\<close> belong to
  the vendored Kubernetes package, which is not among the sources. The spec reads the
  quantity of a CPU isolator in milli-units of a CPU (1000 is one full core), with a
  largest representable milli-value, and that of a memory isolator as a count of
  bytes. As in the package, a quantity is a decimal amount (\<^verbatim>\<open>inf.Dec\<close>: an unscaled
  integer and a scale) that may be missing and then counts as 0. \<open>QValue\<close> is the
  method \<^verbatim>\<open>Value()\<close>: the amount rounded away from zero to an integer; \<open>MilliValue\<close>
  does so for a thousand times the amount; both return the low 64 bits, so they wrap
  around. \<open>exactValue\<close> and \<open>exactMilliValue\<close> are the same numbers before they are cut
  to 64 bits. \<^verbatim>\<open>MaxMilliValue\<close> is the largest value whose milli-value fits 64 bits.
\<close>

record Dec =
  unscaled :: int
  scale :: nat

record Quantity =
  Amount :: "Dec option"

definition roundUp :: "int \<Rightarrow> nat \<Rightarrow> int" where
  "roundUp u sc =
     (let q = \<bar>u\<bar> div 10 ^ sc; r = \<bar>u\<bar> mod 10 ^ sc
      in sgn u * (if r = 0 then q else q + 1))"

definition exactValue :: "Quantity \<Rightarrow> int" where
  "exactValue q = (case Amount q of None \<Rightarrow> 0 | Some a \<Rightarrow> roundUp (unscaled a) (scale a))"

definition exactMilliValue :: "Quantity \<Rightarrow> int" where
  "exactMilliValue q =
     (case Amount q of None \<Rightarrow> 0 | Some a \<Rightarrow> roundUp (unscaled a * 1000) (scale a))"

definition QValue :: "Quantity \<Rightarrow> int64" where
  "QValue q = word_of_int (exactValue q)"

definition MilliValue :: "Quantity \<Rightarrow> int64" where
  "MilliValue q = word_of_int (exactMilliValue q)"

definition MaxMilliValue :: int64 where
  "MaxMilliValue = word_of_int (9223372036854775807 div 1000)"

text \<open>Division of 64-bit integers in Go: the quotient is truncated towards zero.\<close>

definition div64 :: "int64 \<Rightarrow> int64 \<Rightarrow> int64" where
  "div64 a b = word_of_int (sint a sdiv sint b)"

section \<open>Errors\<close>

text \<open>
  The errors that the sources make with \<^verbatim>\<open>fmt.Errorf\<close> and \<^verbatim>\<open>errors.New\<close>, each
  with the values its message is formatted from; \<open>OSError\<close> is an error returned by
  the operating system or by a package outside these sources, named after the call;
  \<open>Wrap\<close> is \<^verbatim>\<open>errwrap.Wrap\<close> of a new error with the given message around a cause;
  \<open>Panic\<close> is a run-time panic.
\<close>

datatype error =
    PathEscapesRoot string
  | SymlinkEscapesRoot string string
  | EmptyExec string
  | UnrecognizedEventHandler string
  | UnrecognizedProtocol string
  | UnableToFind string string
  | CpuLimitExceeds Quantity
  | OSError string
  | Wrap string error
  | Panic string

section \<open>Effects\<close>

text \<open>
  What a call leaves behind, in the order in which it happens: files opened for
  writing (and so created), unit files written with the options serialised into them,
  other files written, directories made, owners changed, symbolic links made, and the
  warnings printed to the log and on standard error.
\<close>

datatype event =
    OpenedFile string
  | WroteUnit string "UnitOption list"
  | WroteFile string string
  | MadeDir string
  | Chowned string int int
  | Symlinked string string
  | LoggedNoHostPort string nat
  | WarnedIsolatorUnsupported string

type_synonym 'a io = "(error + 'a) \<times> event list"

definition pureIO :: "'a \<Rightarrow> 'a io" where
  "pureIO x = (Inr x, [])"

definition failIO :: "error \<Rightarrow> 'a io" where
  "failIO e = (Inl e, [])"

definition liftIO :: "error + 'a \<Rightarrow> 'a io" where
  "liftIO r = (r, [])"

text \<open>One call after another: an error ends the sequence, the effects so far stay.\<close>

definition bindIO :: "'a io \<Rightarrow> ('a \<Rightarrow> 'b io) \<Rightarrow> 'b io" where
  "bindIO m f =
     (case m of
        (Inl e, evs) \<Rightarrow> (Inl e, evs)
      | (Inr x, evs) \<Rightarrow> (case f x of (r, evs') \<Rightarrow> (r, evs @ evs')))"

text \<open>\<^verbatim>\<open>errwrap.Wrap(errors.New(msg), err)\<close> around the error of a call.\<close>

definition wrapIO :: "string \<Rightarrow> 'a io \<Rightarrow> 'a io" where
  "wrapIO msg m = (case m of (Inl e, evs) \<Rightarrow> (Inl (Wrap msg e), evs) | (Inr x, evs) \<Rightarrow> (Inr x, evs))"

text \<open>
  A call of the operating system that either fails, leaving nothing, or happens;
  \<open>osFails\<close> says which calls fail.
\<close>

definition perform :: "(event \<Rightarrow> bool) \<Rightarrow> string \<Rightarrow> event \<Rightarrow> unit io" where
  "perform osFails call ev = (if osFails ev then (Inl (OSError call), []) else (Inr (), [ev]))"

section \<open>PathResolver: evaluateSymlinksInsideApp\<close>

text \<open>
  What \<^verbatim>\<open>os.Lstat\<close> followed by \<^verbatim>\<open>os.Readlink\<close> report for a path: it does not
  exist, \<^verbatim>\<open>Lstat\<close> fails otherwise, it is not a symbolic link, it is a symbolic link
  with a target, or it is a symbolic link that \<^verbatim>\<open>Readlink\<close> cannot read.
\<close>

datatype node =
    NotExist
  | LstatFails
  | NotSymlink
  | Symlink string
  | ReadlinkFails

type_synonym filesystem = "string \<Rightarrow> node"

text \<open>
  The loop over the components of the path; \<open>link\<close> is the loop's variable, the list
  holds \<^verbatim>\<open>paths[i:]\<close>.
\<close>

fun evalLoop :: "filesystem \<Rightarrow> string \<Rightarrow> string \<Rightarrow> string \<Rightarrow> string list \<Rightarrow> error + string" where
  "evalLoop fs appRootfs path link [] = Inr link"
| "evalLoop fs appRootfs path link (p # rest) =
     (let next = Join [link, p] in
      if \<not> HasPrefix next appRootfs then Inl (PathEscapesRoot path)
      else
        (case fs next of
           NotExist \<Rightarrow> Inr (Join (link # p # rest))
         | LstatFails \<Rightarrow> Inl (OSError ''lstat'')
         | NotSymlink \<Rightarrow> evalLoop fs appRootfs path (Join [link, p]) rest
         | ReadlinkFails \<Rightarrow> Inl (OSError ''readlink'')
         | Symlink target \<Rightarrow>
             (let link' = (if IsAbs target then Join [appRootfs, target]
                           else Join [link, target])
              in if \<not> HasPrefix link' appRootfs
                 then Inl (SymlinkEscapesRoot next target)
                 else evalLoop fs appRootfs path link' rest)))"

definition evaluateSymlinksInsideApp :: "filesystem \<Rightarrow> string \<Rightarrow> string \<Rightarrow> error + string" where
  "evaluateSymlinksInsideApp fs appRootfs path =
     (case evalLoop fs appRootfs path appRootfs (Split path CHR ''/'') of
        Inl e \<Rightarrow> Inl e
      | Inr link \<Rightarrow> Inr (TrimPrefix link appRootfs))"


text \<open>A file system given by a table; a path that is not listed does not exist.\<close>

definition fsOf :: "(string \<times> node) list \<Rightarrow> filesystem" where
  "fsOf tbl p = (case map_of tbl p of None \<Rightarrow> NotExist | Some n \<Rightarrow> n)"

text \<open>
  The shape in which the resolver writes a path: a slash before each element, and no
  element is empty, \<^verbatim>\<open>.\<close>, \<^verbatim>\<open>..\<close> or holds a slash.
\<close>

definition normalElem :: "string \<Rightarrow> bool" where
  "normalElem c = (c \<noteq> [] \<and> c \<noteq> ''.'' \<and> c \<noteq> ''..'' \<and> CHR ''/'' \<notin> set c)"

definition rootedPath :: "string list \<Rightarrow> string" where
  "rootedPath cs = concat (map (\<lambda>c. CHR ''/'' # c) cs)"

text \<open>
  Every component of the path exists under the app root and none is a symbolic link:
  each path that the loop builds from the root and the first k components, joined as
  the loop joins them, is there and is not a link.
\<close>

definition allComponentsPlain :: "filesystem \<Rightarrow> string \<Rightarrow> string \<Rightarrow> bool" where
  "allComponentsPlain fs appRootfs path =
     (\<forall>k \<in> set [0 ..< Suc (length (Split path CHR ''/''))].
        fs (Join (appRootfs # take k (Split path CHR ''/''))) = NotSymlink)"

definition fs_sibling :: filesystem where
  "fs_sibling = fsOf [(''/app'', NotSymlink), (''/app/link'', Symlink ''../app2''),
                      (''/app2'', NotSymlink)]"

definition fs_plain :: filesystem where
  "fs_plain = fsOf [(''/app'', NotSymlink), (''/app/bin'', NotSymlink),
                    (''/app/bin/sh'', NotSymlink)]"

section \<open>Package cgroup: isolators\<close>

definition addCpuLimit :: "UnitOption list \<Rightarrow> Quantity \<Rightarrow> error + UnitOption list" where
  "addCpuLimit opts limit =
     (if sint (QValue limit) > sint MaxMilliValue then Inl (CpuLimitExceeds limit)
      else
        let quota = Itoa (sint (div64 (MilliValue limit) 10)) @ ''%''
        in Inr (opts @ [NewUnitOption ''Service'' ''CPUQuota'' quota]))"

definition addMemoryLimit :: "UnitOption list \<Rightarrow> Quantity \<Rightarrow> error + UnitOption list" where
  "addMemoryLimit opts limit =
     Inr (opts @ [NewUnitOption ''Service'' ''MemoryLimit'' (Itoa (sint (QValue limit)))])"

definition isolatorFuncs ::
  "string \<Rightarrow> (UnitOption list \<Rightarrow> Quantity \<Rightarrow> error + UnitOption list) option" where
  "isolatorFuncs k =
     (if k = ''cpu'' then Some addCpuLimit
      else if k = ''memory'' then Some addMemoryLimit
      else None)"

definition cgroupControllerRWFiles :: "string \<Rightarrow> string list option" where
  "cgroupControllerRWFiles k =
     (if k = ''memory'' then Some [''memory.limit_in_bytes'']
      else if k = ''cpu'' then Some [''cpu.cfs_quota_us'']
      else None)"

text \<open>
  \<open>statNotExist\<close> says for which paths \<^verbatim>\<open>os.Stat\<close> fails with an error that
  \<^verbatim>\<open>os.IsNotExist\<close> accepts.
\<close>

definition IsIsolatorSupported :: "(string \<Rightarrow> bool) \<Rightarrow> string \<Rightarrow> bool" where
  "IsIsolatorSupported statNotExist isolator =
     (case cgroupControllerRWFiles isolator of
        Some files \<Rightarrow>
          list_all (\<lambda>f. \<not> statNotExist (Join [''/sys/fs/cgroup/'', isolator, f])) files
      | None \<Rightarrow> False)"

text \<open>
  \<open>MaybeAddIsolator\<close>; the warning goes to standard error. A missing entry of
  \<open>isolatorFuncs\<close> would be a call of a nil function.
\<close>

definition MaybeAddIsolator ::
  "(string \<Rightarrow> bool) \<Rightarrow> UnitOption list \<Rightarrow> string \<Rightarrow> Quantity option \<Rightarrow> UnitOption list io" where
  "MaybeAddIsolator statNotExist opts isolator limit =
     (case limit of
        None \<Rightarrow> (Inr opts, [])
      | Some l \<Rightarrow>
          if IsIsolatorSupported statNotExist isolator then
            (case isolatorFuncs isolator of
               None \<Rightarrow> (Inl (Panic ''nil func''), [])
             | Some f \<Rightarrow>
                 (case f opts l of
                    Inl err \<Rightarrow> (Inl err, [])
                  | Inr opts' \<Rightarrow> (Inr opts', [])))
          else (Inr opts, [WarnedIsolatorUnsupported isolator]))"

section \<open>Package cgroup: the controller catalogue\<close>

text \<open>
  \<^verbatim>\<open>fmt.Sscanf(line, "%s %d %d %d", ...)\<close> reads the line rune by rune. \<open>DecodeRune\<close>
  is \<^verbatim>\<open>utf8.DecodeRuneInString\<close>: the first rune of a string of bytes and the number of
  bytes it takes; bytes that are no valid UTF-8 give the rune U+FFFD and take one byte.
\<close>

definition byteAt :: "string \<Rightarrow> nat \<Rightarrow> int" where
  "byteAt s i = of_char (s ! i)"

definition DecodeRune :: "string \<Rightarrow> int \<times> nat" where
  "DecodeRune s =
     (if s = [] then (0xFFFD, 0)
      else
        let b0 = byteAt s 0
        in if b0 < 0x80 then (b0, 1)
           else if b0 < 0xC2 \<or> 0xF4 < b0 then (0xFFFD, 1)
           else
             let sz = (if b0 < 0xE0 then 2 else if b0 < 0xF0 then 3 else 4);
                 lo = (if b0 = 0xE0 then 0xA0 else if b0 = 0xF0 then 0x90 else 0x80);
                 hi = (if b0 = 0xED then 0x9F else if b0 = 0xF4 then 0x8F else 0xBF)
             in if length s < sz then (0xFFFD, 1)
                else
                  let b1 = byteAt s 1
                  in if b1 < lo \<or> hi < b1 then (0xFFFD, 1)
                     else if sz = 2 then ((b0 - 0xC0) * 64 + (b1 - 0x80), 2)
                     else
                       let b2 = byteAt s 2
                       in if b2 < 0x80 \<or> 0xBF < b2 then (0xFFFD, 1)
                          else if sz = 3 then
                            ((b0 - 0xE0) * 4096 + (b1 - 0x80) * 64 + (b2 - 0x80), 3)
                          else
                            let b3 = byteAt s 3
                            in if b3 < 0x80 \<or> 0xBF < b3 then (0xFFFD, 1)
                               else ((b0 - 0xF0) * 262144 + (b1 - 0x80) * 4096
                                     + (b2 - 0x80) * 64 + (b3 - 0x80), 4))"

text \<open>The white space of package \<^verbatim>\<open>fmt\<close>, a table of runes.\<close>

definition isSpace :: "int \<Rightarrow> bool" where
  "isSpace r =
     ((0x09 \<le> r \<and> r \<le> 0x0D) \<or> r = 0x20 \<or> r = 0x85 \<or> r = 0xA0 \<or> r = 0x1680
      \<or> (0x2000 \<le> r \<and> r \<le> 0x200A) \<or> r = 0x2028 \<or> r = 0x2029 \<or> r = 0x202F
      \<or> r = 0x205F \<or> r = 0x3000)"

text \<open>
  The bytes that \<^verbatim>\<open>WriteRune\<close> puts into a token for the first rune of a string: the
  bytes of the rune, and the three bytes of U+FFFD where the bytes were not valid.
\<close>

definition runeBytes :: "string \<Rightarrow> string" where
  "runeBytes s =
     (case DecodeRune s of
        (r, n) \<Rightarrow> if r = 0xFFFD then [CHR 0xEF, CHR 0xBF, CHR 0xBD] else take n s)"

text \<open>
  \<^verbatim>\<open>SkipSpace\<close>, with which every verb begins: white space is passed over, and a
  newline is an error, since for \<^verbatim>\<open>Sscanf\<close> a newline does not count as space.
\<close>

function skipSpace :: "string \<Rightarrow> string option" where
  "skipSpace [] = Some []"
| "skipSpace (c # cs) =
     (case DecodeRune (c # cs) of
        (r, n) \<Rightarrow>
          if r = 0x0A then None
          else if isSpace r then skipSpace (drop (n - 1) cs)
          else Some (c # cs))"
  by pat_completeness auto
termination
  by (relation "measure length") auto

text \<open>The token of \<^verbatim>\<open>%s\<close>: the runes up to the next white space, and what follows.\<close>

function token :: "string \<Rightarrow> string \<times> string" where
  "token [] = ([], [])"
| "token (c # cs) =
     (case DecodeRune (c # cs) of
        (r, n) \<Rightarrow>
          if isSpace r then ([], c # cs)
          else (case token (drop (n - 1) cs) of
                  (t, rest) \<Rightarrow> (runeBytes (c # cs) @ t, rest)))"
  by pat_completeness auto
termination
  by (relation "measure length") auto

text \<open>\<^verbatim>\<open>%s\<close>: the input must not have ended.\<close>

definition scanString :: "string \<Rightarrow> (string \<times> string) option" where
  "scanString s =
     (case skipSpace s of
        None \<Rightarrow> None
      | Some s1 \<Rightarrow> if s1 = [] then None else Some (token s1))"

text \<open>\<^verbatim>\<open>%d\<close>: an optional sign and decimal digits that fit an \<^verbatim>\<open>int\<close>.\<close>

definition scanInt :: "string \<Rightarrow> (int \<times> string) option" where
  "scanInt s =
     (case skipSpace s of
        None \<Rightarrow> None
      | Some s1 \<Rightarrow>
          let sgn = (if HasPrefix s1 ''-'' \<or> HasPrefix s1 ''+'' then take 1 s1 else []);
              s2 = drop (length sgn) s1;
              digits = takeWhile isDigit s2
          in if digits = [] then None
             else (case Atoi (sgn @ digits) of
                     Inl e \<Rightarrow> None
                   | Inr n \<Rightarrow> Some (n, dropWhile isDigit s2)))"

text \<open>
  A space of the format, as it stands before each \<^verbatim>\<open>%d\<close>: the input has a white space
  here that is no newline, or it has ended; the verb passes over the white space.
\<close>

definition spaceOrEnd :: "string \<Rightarrow> bool" where
  "spaceOrEnd s =
     (s = [] \<or> (case DecodeRune s of (r, n) \<Rightarrow> isSpace r \<and> r \<noteq> 0x0A))"

definition spaceThenInt :: "string \<Rightarrow> (int \<times> string) option" where
  "spaceThenInt s = (if spaceOrEnd s then scanInt s else None)"

record cgroupLine =
  controller :: string
  hierarchy :: int
  num :: int
  enabled :: int

text \<open>
  Scanning stops at the first mismatch or verb that fails, and the variables not
  reached keep their zero value; what follows the last number is not looked at.
\<close>

definition Sscanf :: "string \<Rightarrow> cgroupLine" where
  "Sscanf line =
     (case scanString line of
        None \<Rightarrow> \<lparr>controller = [], hierarchy = 0, num = 0, enabled = 0\<rparr>
      | Some (c, r1) \<Rightarrow>
          (case spaceThenInt r1 of
             None \<Rightarrow> \<lparr>controller = c, hierarchy = 0, num = 0, enabled = 0\<rparr>
           | Some (h, r2) \<Rightarrow>
               (case spaceThenInt r2 of
                  None \<Rightarrow> \<lparr>controller = c, hierarchy = h, num = 0, enabled = 0\<rparr>
                | Some (n, r3) \<Rightarrow>
                    (case spaceThenInt r3 of
                       None \<Rightarrow> \<lparr>controller = c, hierarchy = h, num = n, enabled = 0\<rparr>
                     | Some (e, r4) \<Rightarrow>
                         \<lparr>controller = c, hierarchy = h, num = n, enabled = e\<rparr>))))"

text \<open>The body of the loop of \<open>parseCgroups\<close> for one line.\<close>

definition addLine :: "(int \<rightharpoonup> string list) \<Rightarrow> string \<Rightarrow> (int \<rightharpoonup> string list)" where
  "addLine cgroups line =
     (let l = Sscanf line
      in if enabled l = 1 then
           (case cgroups (hierarchy l) of
              None \<Rightarrow> cgroups(hierarchy l \<mapsto> [controller l])
            | Some cs \<Rightarrow> cgroups(hierarchy l \<mapsto> cs @ [controller l]))
         else cgroups)"

text \<open>
  The reader is given by what \<^verbatim>\<open>bufio.Scanner\<close> makes of it: the lines that the
  calls of \<^verbatim>\<open>Scan\<close> return one after the other, and the error of \<^verbatim>\<open>Err\<close> at the end.
\<close>

definition parseCgroups :: "string list \<Rightarrow> error option \<Rightarrow> error + (int \<rightharpoonup> string list)" where
  "parseCgroups lines scanErr =
     (let cgroups = foldl addLine Map.empty (drop 1 lines)
      in case scanErr of Some err \<Rightarrow> Inl err | None \<Rightarrow> Inr cgroups)"

text \<open>
  Go visits the keys of a map in an order it does not fix: the order is an argument,
  a list of the keys of the map.
\<close>

definition getControllers :: "int list \<Rightarrow> (int \<rightharpoonup> string list) \<Rightarrow> string list" where
  "getControllers order cgroups =
     concat (map (\<lambda>h. case cgroups h of None \<Rightarrow> [] | Some cs \<Rightarrow> [JoinStr cs '','']) order)"

definition addSymlinks :: "(int \<rightharpoonup> string list) \<Rightarrow> (string \<rightharpoonup> string) \<Rightarrow> int \<Rightarrow> (string \<rightharpoonup> string)" where
  "addSymlinks cgroups symlinks h =
     (case cgroups h of
        None \<Rightarrow> symlinks
      | Some cs \<Rightarrow>
          if length cs > 1
          then foldl (\<lambda>m ln. m(ln \<mapsto> JoinStr cs '','')) symlinks cs
          else symlinks)"

definition getControllerSymlinks :: "int list \<Rightarrow> (int \<rightharpoonup> string list) \<Rightarrow> (string \<rightharpoonup> string)" where
  "getControllerSymlinks order cgroups = foldl (addSymlinks cgroups) Map.empty order"

text \<open>The lines whose enabled flag is 1, scanned, in the order of the listing.\<close>

definition enabledLines :: "string list \<Rightarrow> cgroupLine list" where
  "enabledLines lines = filter (\<lambda>l. enabled l = 1) (map Sscanf lines)"

text \<open>The controllers that a listing puts into hierarchy \<open>h\<close>, in the order of the listing.\<close>

definition controllersOf :: "string list \<Rightarrow> int \<Rightarrow> string list" where
  "controllersOf lines h = map controller (filter (\<lambda>l. hierarchy l = h) (enabledLines lines))"

definition procCgroups :: "string list" where
  "procCgroups =
     [''cpuset 4 1 1'',
      ''cpu 2 60 1'',
      ''cpuacct 2 60 1'',
      ''memory 3 70 1'',
      ''hugetlb 5 1 0'']"

section \<open>The pod manifest\<close>

text \<open>
  The types of the appc schema, with the fields that the sources read. A record's
  fields carry the record's name where two records have a field of the same name.
\<close>

record Port =
  Port_Name :: string
  Port_Protocol :: string
  Port_Port :: nat
  Port_SocketActivated :: bool

record ExposedPort =
  ExposedPort_Name :: string
  ExposedPort_HostPort :: nat

record EventHandler =
  EventHandler_Name :: string
  EventHandler_Exec :: "string list"

text \<open>
  What \<^verbatim>\<open>Isolator.Value()\<close> returns: a memory or CPU resource with its limit (which
  may be nil), a set of Linux capabilities, or a value of another type.
\<close>

datatype IsolatorValue =
    ResourceMemory "Quantity option"
  | ResourceCPU "Quantity option"
  | LinuxCapabilitiesSet "string list"
  | OtherIsolatorValue

record Isolator =
  Isolator_Name :: string
  Isolator_Value :: IsolatorValue

record App =
  Exec :: "string list"
  EventHandlers :: "EventHandler list"
  User :: string
  Group :: string
  SupplementaryGIDs :: "int list"
  WorkingDirectory :: string
  Environment :: "(string \<times> string) list"
  Ports :: "Port list"
  Isolators :: "Isolator list"

record RuntimeApp =
  RuntimeApp_Name :: string
  RuntimeApp_App :: App

record PodManifest =
  Manifest_Apps :: "RuntimeApp list"
  Manifest_Ports :: "ExposedPort list"

text \<open>
  The pod of \<^verbatim>\<open>stage1/common/types\<close>; \<open>AppNameToImageName\<close> is its method of that
  name, which reads the images of the pod.
\<close>

record Pod =
  Root :: string
  Manifest :: PodManifest
  MetadataServiceURL :: string
  AppNameToImageName :: "string \<Rightarrow> string"

record UidRange =
  Shift :: uint32
  Count :: uint32

text \<open>
  The state of the host that the sources read, and the calls that fail: \<open>osFails\<close>
  for the calls that change the file system, \<open>statNotExist\<close> for \<^verbatim>\<open>os.Stat\<close> failing
  with a not-exist error, \<open>lstat\<close> for \<^verbatim>\<open>os.Lstat\<close> and \<^verbatim>\<open>os.Readlink\<close>, \<open>statMode\<close>
  for \<^verbatim>\<open>os.Stat\<close> (is it a directory, has it an executable bit), \<open>lstatOwner\<close> for
  \<^verbatim>\<open>syscall.Lstat\<close> (the owner's uid and gid), \<open>getwd\<close> for the working directory that
  \<^verbatim>\<open>filepath.Abs\<close> asks for, \<open>readFile\<close> for \<^verbatim>\<open>ioutil.ReadFile\<close>.
\<close>

record host =
  osFails :: "event \<Rightarrow> bool"
  statNotExist :: "string \<Rightarrow> bool"
  lstat :: filesystem
  statMode :: "string \<Rightarrow> (bool \<times> bool) option"
  lstatOwner :: "string \<Rightarrow> (uint32 \<times> uint32) option"
  getwd :: "error + string"
  readFile :: "string \<Rightarrow> string option"

text \<open>
  Functions of other packages that the sources call and that are not part of them:
  \<^verbatim>\<open>strconv.Quote\<close> (the verb \<^verbatim>\<open>%q\<close>), the uid range of package \<^verbatim>\<open>uid\<close>, the lookups
  of packages \<^verbatim>\<open>passwd\<close> and \<^verbatim>\<open>group\<close> (given the name and the file), and the names and
  paths of packages \<^verbatim>\<open>common\<close> and \<^verbatim>\<open>stage1/init/common\<close>; \<open>HostSystemdVersion\<close> is
  \<^verbatim>\<open>common.LookupPath\<close> of \<^verbatim>\<open>systemctl\<close> followed by \<^verbatim>\<open>common.SystemdVersion\<close>.
\<close>

record pkgs =
  Quote :: "string \<Rightarrow> string"
  Deserialize :: "string \<Rightarrow> error + UidRange"
  UnshiftRange :: "UidRange \<Rightarrow> uint32 \<Rightarrow> uint32 \<Rightarrow> error + (uint32 \<times> uint32)"
  LookupUidFromFile :: "string \<Rightarrow> string \<Rightarrow> error + int"
  LookupGidFromFile :: "string \<Rightarrow> string \<Rightarrow> error + int"
  Stage1RootfsPath :: "string \<Rightarrow> string"
  AppRootfsPath :: "string \<Rightarrow> string \<Rightarrow> string"
  RelAppRootfsPath :: "string \<Rightarrow> string"
  EnvFilePathSystemd :: "string \<Rightarrow> string \<Rightarrow> string"
  EnvFilePathEnterexec :: "string \<Rightarrow> string \<Rightarrow> string"
  RelEnvFilePathSystemd :: "string \<Rightarrow> string"
  UnitsDir :: string
  ServiceUnitName :: "string \<Rightarrow> string"
  ServiceUnitPath :: "string \<Rightarrow> string \<Rightarrow> string"
  ServiceWantPath :: "string \<Rightarrow> string \<Rightarrow> string"
  SocketUnitName :: "string \<Rightarrow> string"
  SocketUnitPath :: "string \<Rightarrow> string \<Rightarrow> string"
  SocketWantPath :: "string \<Rightarrow> string \<Rightarrow> string"
  InstantiatedPrepareAppUnitName :: "string \<Rightarrow> string"
  HostSystemdVersion :: "error + int"

section \<open>UnitEmitter: quoting and small helpers\<close>

text \<open>
  \<open>execEscape\<close>: the argument is quoted with \<^verbatim>\<open>%q\<close>, then every single quote gets a
  backslash before it and, after the first argument, every dollar sign is doubled. The
  two replacements do not touch each other's bytes, so the order in which Go visits
  the map of replacements does not matter.
\<close>

definition escapeChar :: "char \<Rightarrow> string \<Rightarrow> string \<Rightarrow> string" where
  "escapeChar c pre s = concat (map (\<lambda>x. if x = c then pre @ [x] else [x]) s)"

definition execEscape :: "(string \<Rightarrow> string) \<Rightarrow> nat \<Rightarrow> string \<Rightarrow> string" where
  "execEscape quote i str =
     (let escArg = escapeChar (CHR 0x27) [CHR 0x5C] (quote str)
      in if i > 0 then escapeChar (CHR ''$'') ''$'' escArg else escArg)"

definition quoteExec :: "(string \<Rightarrow> string) \<Rightarrow> string list \<Rightarrow> error + string" where
  "quoteExec quote exec =
     (if length exec = 0 then Inl (Panic ''empty exec'')
      else Inr (JoinStr (map (\<lambda>(i, arg). execEscape quote i arg) (enumerate 0 exec)) '' ''))"

definition findHostPort :: "PodManifest \<Rightarrow> string \<Rightarrow> nat" where
  "findHostPort pm name =
     foldl (\<lambda>port p. if ExposedPort_Name p = name then ExposedPort_HostPort p else port)
       0 (Manifest_Ports pm)"

text \<open>\<^verbatim>\<open>filepath.Base\<close>, \<^verbatim>\<open>filepath.SplitList\<close>, \<^verbatim>\<open>filepath.Abs\<close> and \<^verbatim>\<open>strings.Trim\<close>.\<close>

definition Base :: "string \<Rightarrow> string" where
  "Base p =
     (if p = [] then ''.''
      else
        let q = rev (dropWhile (\<lambda>c. c = CHR ''/'') (rev p));
            b = rev (takeWhile (\<lambda>c. c \<noteq> CHR ''/'') (rev q))
        in if b = [] then ''/'' else b)"

definition SplitList :: "string \<Rightarrow> string list" where
  "SplitList p = (if p = [] then [] else Split p CHR '':'')"

definition Abs :: "host \<Rightarrow> string \<Rightarrow> error + string" where
  "Abs h p =
     (if IsAbs p then Inr (Clean p)
      else (case getwd h of Inl err \<Rightarrow> Inl err | Inr wd \<Rightarrow> Inr (Join [wd, p])))"

definition Trim :: "string \<Rightarrow> string \<Rightarrow> string" where
  "Trim s cutset =
     rev (dropWhile (\<lambda>c. c \<in> set cutset) (rev (dropWhile (\<lambda>c. c \<in> set cutset) s)))"

text \<open>\<^verbatim>\<open>Environment.Set\<close> and \<^verbatim>\<open>Environment.Get\<close> of the appc schema.\<close>

fun envSet :: "(string \<times> string) list \<Rightarrow> string \<Rightarrow> string \<Rightarrow> (string \<times> string) list" where
  "envSet [] name v = [(name, v)]"
| "envSet ((n, x) # env) name v =
     (if n = name then (name, v) # env else (n, x) # envSet env name v)"

definition envGet :: "(string \<times> string) list \<Rightarrow> string \<Rightarrow> string option" where
  "envGet env name = map_of env name"

definition defaultEnv :: "(string \<times> string) list" where
  "defaultEnv =
     [(''PATH'', ''/usr/local/sbin:/usr/local/bin:/usr/sbin:/usr/bin:/sbin:/bin''),
      (''SHELL'', ''/bin/sh''),
      (''USER'', ''root''),
      (''LOGNAME'', ''root''),
      (''HOME'', ''/root'')]"

definition LinuxCapabilitiesRetainSetName :: string where
  "LinuxCapabilitiesRetainSetName = ''os/linux/capabilities-retain-set''"

definition appDefaultCapabilities :: Isolator where
  "appDefaultCapabilities =
     \<lparr>Isolator_Name = LinuxCapabilitiesRetainSetName,
      Isolator_Value = LinuxCapabilitiesSet
        [''CAP_AUDIT_WRITE'', ''CAP_CHOWN'', ''CAP_DAC_OVERRIDE'', ''CAP_FSETID'',
         ''CAP_FOWNER'', ''CAP_KILL'', ''CAP_MKNOD'', ''CAP_NET_RAW'',
         ''CAP_NET_BIND_SERVICE'', ''CAP_SETUID'', ''CAP_SETGID'', ''CAP_SETPCAP'',
         ''CAP_SETFCAP'', ''CAP_SYS_CHROOT'']\<rparr>"

definition GetAppCapabilities :: "Isolator list \<Rightarrow> string list" where
  "GetAppCapabilities isolators =
     concat (map (\<lambda>isolator.
       case Isolator_Value isolator of
         LinuxCapabilitiesSet caps \<Rightarrow>
           if Isolator_Name isolator = LinuxCapabilitiesRetainSetName then caps else []
       | _ \<Rightarrow> []) isolators)"

text \<open>
  Opening a unit file for writing and copying the serialised options into it, each
  with the message that the caller wraps around its error.
\<close>

definition writeUnitFile ::
  "host \<Rightarrow> string \<Rightarrow> UnitOption list \<Rightarrow> string \<Rightarrow> string \<Rightarrow> unit io" where
  "writeUnitFile h file opts createMsg writeMsg =
     bindIO (wrapIO createMsg (perform (osFails h) ''open'' (OpenedFile file)))
       (\<lambda>_. wrapIO writeMsg (perform (osFails h) ''copy'' (WroteUnit file opts)))"

section \<open>IdentityResolver: parseUserGroup\<close>

text \<open>
  The two switches of \<open>parseUserGroup\<close>, for the user and for the group; the group is
  looked at only when the user was resolved.
\<close>

definition parseUserGroup :: "host \<Rightarrow> pkgs \<Rightarrow> Pod \<Rightarrow> RuntimeApp \<Rightarrow> UidRange \<Rightarrow> error + (int \<times> int)" where
  "parseUserGroup h k p ra uidRange =
     (let app = RuntimeApp_App ra;
          appName = RuntimeApp_Name ra;
          uidRes =
            (if User app = ''root'' then Inr 0
             else if HasPrefix (User app) ''/'' then
               (case lstatOwner h (Join [AppRootfsPath k (Root p) appName, User app]) of
                  None \<Rightarrow>
                    Inl (Wrap (''unable to get uid from file '' @ Quote k (User app))
                          (OSError ''lstat''))
                | Some (fileUid, fileGid) \<Rightarrow>
                    (case UnshiftRange k uidRange fileUid 0 of
                       Inl err \<Rightarrow> Inl (Wrap ''unable to determine real uid'' err)
                     | Inr (uidReal, g) \<Rightarrow> Inr (uint uidReal)))
             else
               (case Atoi (User app) of
                  Inr n \<Rightarrow> Inr n
                | Inl e \<Rightarrow>
                    (case LookupUidFromFile k (User app)
                            (Join [AppRootfsPath k (Root p) appName, ''etc/passwd'']) of
                       Inl err \<Rightarrow> Inl (Wrap (''cannot lookup user '' @ Quote k (User app)) err)
                     | Inr n \<Rightarrow> Inr n)));
          gidRes =
            (if Group app = ''root'' then Inr 0
             else if HasPrefix (Group app) ''/'' then
               (case lstatOwner h (Join [AppRootfsPath k (Root p) appName, Group app]) of
                  None \<Rightarrow>
                    Inl (Wrap (''unable to get gid from file '' @ Quote k (Group app))
                          (OSError ''lstat''))
                | Some (fileUid, fileGid) \<Rightarrow>
                    (case UnshiftRange k uidRange 0 fileGid of
                       Inl err \<Rightarrow> Inl (Wrap ''unable to determine real gid'' err)
                     | Inr (u, gidReal) \<Rightarrow> Inr (uint gidReal)))
             else
               (case Atoi (Group app) of
                  Inr n \<Rightarrow> Inr n
                | Inl e \<Rightarrow>
                    (case LookupGidFromFile k (Group app)
                            (Join [AppRootfsPath k (Root p) appName, ''etc/group'']) of
                       Inl err \<Rightarrow> Inl (Wrap (''cannot lookup group '' @ Quote k (Group app)) err)
                     | Inr n \<Rightarrow> Inr n)))
      in case uidRes of
           Inl err \<Rightarrow> Inl err
         | Inr uid' \<Rightarrow> (case gidRes of Inl err \<Rightarrow> Inl err | Inr gid' \<Rightarrow> Inr (uid', gid')))"

section \<open>UnitEmitter: the shutdown service\<close>

text \<open>
  \<open>GetFlavor\<close>: the flavor is the target of the link \<^verbatim>\<open>flavor\<close>; for the flavor
  \<^verbatim>\<open>host\<close> the version is that of the host's systemd, otherwise it is read from the
  file \<^verbatim>\<open>systemd-version\<close>, whose first byte is dropped, and is 0 when the rest is not
  a number.
\<close>

definition GetFlavor :: "host \<Rightarrow> pkgs \<Rightarrow> Pod \<Rightarrow> error + (string \<times> int)" where
  "GetFlavor h k p =
     (case lstat h (Join [Stage1RootfsPath k (Root p), ''flavor'']) of
        Symlink flavor \<Rightarrow>
          if flavor = ''host'' then
            (case HostSystemdVersion k of
               Inl err \<Rightarrow> Inl err
             | Inr systemdVersion \<Rightarrow> Inr (flavor, systemdVersion))
          else
            (case readFile h (Join [Stage1RootfsPath k (Root p), ''systemd-version'']) of
               None \<Rightarrow>
                 Inl (Wrap ''unable to determine stage1's systemd version'' (OSError ''readfile''))
             | Some systemdVersionBytes \<Rightarrow>
                 (let systemdVersionString = Trim systemdVersionBytes [CHR '' '', CHR 0x0A]
                  in if systemdVersionString = []
                     then Inl (Panic ''slice bounds out of range'')
                     else
                       (case Atoi (drop 1 systemdVersionString) of
                          Inr systemdVersion \<Rightarrow> Inr (flavor, systemdVersion)
                        | Inl ErrSyntax \<Rightarrow> Inr (flavor, 0)
                        | Inl ErrRange \<Rightarrow>
                            Inl (Wrap ''error parsing stage1's systemd version''
                                  (OSError ''strconv'')))))
      | other \<Rightarrow> Inl (Wrap ''unable to determine stage1 flavor'' (OSError ''readlink'')))"

definition writeShutdownService :: "host \<Rightarrow> pkgs \<Rightarrow> Pod \<Rightarrow> unit io" where
  "writeShutdownService h k p =
     (case GetFlavor h k p of
        Inl err \<Rightarrow> failIO err
      | Inr (flavor, systemdVersion) \<Rightarrow>
          (let opts =
                 [NewUnitOption ''Unit'' ''Description'' ''Pod shutdown'',
                  NewUnitOption ''Unit'' ''AllowIsolate'' ''true'',
                  NewUnitOption ''Unit'' ''StopWhenUnneeded'' ''yes'',
                  NewUnitOption ''Unit'' ''DefaultDependencies'' ''false'',
                  NewUnitOption ''Service'' ''RemainAfterExit'' ''yes''];
               shutdownVerb =
                 (if flavor \<noteq> ''coreos'' \<and> systemdVersion \<noteq> 0 \<and> systemdVersion < 227
                  then ''halt'' else ''exit'');
               opts' = opts @ [NewUnitOption ''Service'' ''ExecStop''
                                 (''/usr/bin/systemctl --force '' @ shutdownVerb)];
               unitsPath = Join [Stage1RootfsPath k (Root p), UnitsDir k]
           in writeUnitFile h (Join [unitsPath, ''shutdown.service'']) opts'
                ''failed to create unit file'' ''failed to write unit file''))"

section \<open>UnitEmitter: files beside the units\<close>

definition chownShifted :: "host \<Rightarrow> UidRange \<Rightarrow> string \<Rightarrow> unit io" where
  "chownShifted h uidRange f =
     perform (osFails h) ''chown'' (Chowned f (uint (Shift uidRange)) (uint (Shift uidRange)))"

text \<open>
  \<open>writeEnvFile\<close>. Go visits the map \<open>defaultEnv\<close> in an order it does not fix; the
  order of the source text stands for it.
\<close>

definition writeEnvFile :: "host \<Rightarrow> (string \<times> string) list \<Rightarrow> UidRange \<Rightarrow> char \<Rightarrow> string \<Rightarrow> unit io" where
  "writeEnvFile h env uidRange separator envFilePath =
     (let ef = concat (map (\<lambda>(dk, dv). if envGet env dk = None
                                         then dk @ ''='' @ dv @ [separator] else []) defaultEnv)
               @ concat (map (\<lambda>(n, v). n @ ''='' @ v @ [separator]) env)
      in bindIO (perform (osFails h) ''writefile'' (WroteFile envFilePath ef))
           (\<lambda>_. if Shift uidRange \<noteq> 0 \<and> Count uidRange \<noteq> 0
                 then chownShifted h uidRange envFilePath
                 else pureIO ()))"

fun chownAll :: "host \<Rightarrow> UidRange \<Rightarrow> string list \<Rightarrow> unit io" where
  "chownAll h uidRange [] = pureIO ()"
| "chownAll h uidRange (f # fs) =
     bindIO (chownShifted h uidRange f) (\<lambda>_. chownAll h uidRange fs)"

definition generateSysusers :: "host \<Rightarrow> pkgs \<Rightarrow> Pod \<Rightarrow> RuntimeApp \<Rightarrow> int \<Rightarrow> int \<Rightarrow> UidRange \<Rightarrow> unit io" where
  "generateSysusers h k p ra uid' gid' uidRange =
     (let app = RuntimeApp_App ra;
          appName = RuntimeApp_Name ra;
          sysusersDir = Join [Stage1RootfsPath k (Root p), ''usr/lib/sysusers.d'']
      in bindIO (perform (osFails h) ''mkdir'' (MadeDir sysusersDir))
           (\<lambda>_.
              let gids = SupplementaryGIDs app @ [gid'];
                  groupLines = map (\<lambda>g. ''g gen'' @ Itoa g @ '' '' @ Itoa g @ [CHR 0x0A]) gids;
                  username = ''gen'' @ Itoa uid';
                  userLine = ''u '' @ username @ '' '' @ Itoa uid' @ '' '' @ [CHR 0x22]
                             @ username @ [CHR 0x22, CHR 0x0A];
                  sysusersConf = groupLines @ [userLine];
                  sysusersFile = Join [Stage1RootfsPath k (Root p), ''usr/lib/sysusers.d'',
                                       ServiceUnitName k appName @ ''.conf'']
              in bindIO (perform (osFails h) ''writefile''
                           (WroteFile sysusersFile (JoinStr sysusersConf [CHR 0x0A])))
                   (\<lambda>_. if Shift uidRange \<noteq> 0 \<and> Count uidRange \<noteq> 0
                         then chownAll h uidRange [sysusersDir, sysusersFile]
                         else pureIO ())))"

definition writeAppReaper :: "host \<Rightarrow> pkgs \<Rightarrow> Pod \<Rightarrow> string \<Rightarrow> unit io" where
  "writeAppReaper h k p appName =
     (let opts =
            [NewUnitOption ''Unit'' ''Description'' (appName @ '' Reaper''),
             NewUnitOption ''Unit'' ''DefaultDependencies'' ''false'',
             NewUnitOption ''Unit'' ''StopWhenUnneeded'' ''yes'',
             NewUnitOption ''Unit'' ''Wants'' ''shutdown.service'',
             NewUnitOption ''Unit'' ''After'' ''shutdown.service'',
             NewUnitOption ''Unit'' ''Conflicts'' ''exit.target'',
             NewUnitOption ''Unit'' ''Conflicts'' ''halt.target'',
             NewUnitOption ''Unit'' ''Conflicts'' ''poweroff.target'',
             NewUnitOption ''Service'' ''RemainAfterExit'' ''yes'',
             NewUnitOption ''Service'' ''ExecStop'' (''/reaper.sh '' @ appName)];
          unitsPath = Join [Stage1RootfsPath k (Root p), UnitsDir k]
      in writeUnitFile h (Join [unitsPath, ''reaper-'' @ appName @ ''.service'']) opts
           ''failed to create service unit file'' ''failed to write service unit file'')"

section \<open>UnitEmitter: finding the executable\<close>

text \<open>The loop of \<open>lookupPathInsideApp\<close> over the directories of the search path.\<close>

fun lookupLoop :: "host \<Rightarrow> string \<Rightarrow> string \<Rightarrow> string \<Rightarrow> string list \<Rightarrow> error + string" where
  "lookupLoop h bin paths appRootfs [] = Inl (UnableToFind bin paths)"
| "lookupLoop h bin paths appRootfs (dir # rest) =
     (let binPath = Join [dir, bin] in
      case Abs h binPath of
        Inl err \<Rightarrow> Inl (OSError (''unable to find absolute path for '' @ binPath))
      | Inr binAbsPath \<Rightarrow>
          (let relPath = TrimPrefix binAbsPath appRootfs in
           if lstat h binAbsPath = NotExist \<or> lstat h binAbsPath = LstatFails
           then lookupLoop h bin paths appRootfs rest
           else
             (case evaluateSymlinksInsideApp (lstat h) appRootfs relPath of
                Inl err \<Rightarrow> Inl (Wrap (''could not evaluate path '' @ binAbsPath) err)
              | Inr binRealPath \<Rightarrow>
                  (case statMode h (Join [appRootfs, binRealPath]) of
                     None \<Rightarrow> lookupLoop h bin paths appRootfs rest
                   | Some (isDir, executable) \<Rightarrow>
                       if \<not> isDir \<and> executable then Inr relPath
                       else lookupLoop h bin paths appRootfs rest))))"

definition lookupPathInsideApp :: "host \<Rightarrow> string \<Rightarrow> string \<Rightarrow> string \<Rightarrow> error + string" where
  "lookupPathInsideApp h bin paths appRootfs =
     lookupLoop h bin paths appRootfs (map (\<lambda>d. Join [appRootfs, d]) (SplitList paths))"

definition appSearchPaths :: "string \<Rightarrow> App \<Rightarrow> string list" where
  "appSearchPaths appRootfs app =
     (case envGet (Environment app) ''PATH'' of
        Some imgPath \<Rightarrow> Split imgPath CHR '':''
      | None \<Rightarrow> [appRootfs, ''/bin'', ''/usr/bin''])"

definition findBinPath :: "host \<Rightarrow> pkgs \<Rightarrow> Pod \<Rightarrow> string \<Rightarrow> App \<Rightarrow> string \<Rightarrow> error + string" where
  "findBinPath h k p appName app bin =
     (case Abs h (Root p) of
        Inl err \<Rightarrow> Inl (Wrap ''could not get pod's root absolute path'' err)
      | Inr absRoot \<Rightarrow>
          (let appRootfs = AppRootfsPath k absRoot appName;
               appPathDirs = appSearchPaths appRootfs app;
               appPath = JoinStr appPathDirs '':''
           in case lookupPathInsideApp h bin appPath appRootfs of
                Inl err \<Rightarrow> Inl (Wrap (''error looking up '' @ Quote k bin) err)
              | Inr binPath \<Rightarrow> Inr (TrimPrefix binPath appRootfs)))"

section \<open>UnitEmitter: appToSystemd\<close>

text \<open>The loop over the event handlers of the app.\<close>

fun eventHandlerOpts :: "(string \<Rightarrow> string) \<Rightarrow> UnitOption list \<Rightarrow> EventHandler list \<Rightarrow> error + UnitOption list" where
  "eventHandlerOpts quote opts [] = Inr opts"
| "eventHandlerOpts quote opts (eh # ehs) =
     (case (if EventHandler_Name eh = ''pre-start'' then Some ''ExecStartPre''
            else if EventHandler_Name eh = ''post-stop'' then Some ''ExecStopPost''
            else None) of
        None \<Rightarrow> Inl (UnrecognizedEventHandler (EventHandler_Name eh))
      | Some typ \<Rightarrow>
          (case quoteExec quote (EventHandler_Exec eh) of
             Inl err \<Rightarrow> Inl err
           | Inr exec \<Rightarrow>
               eventHandlerOpts quote (opts @ [NewUnitOption ''Service'' typ exec]) ehs))"

text \<open>The loop over the isolators of the app.\<close>

fun isolatorOpts :: "(string \<Rightarrow> bool) \<Rightarrow> UnitOption list \<Rightarrow> Isolator list \<Rightarrow> UnitOption list io" where
  "isolatorOpts sne opts [] = pureIO opts"
| "isolatorOpts sne opts (i # rest) =
     (case Isolator_Value i of
        ResourceMemory limit \<Rightarrow>
          bindIO (MaybeAddIsolator sne opts ''memory'' limit) (\<lambda>opts'. isolatorOpts sne opts' rest)
      | ResourceCPU limit \<Rightarrow>
          bindIO (MaybeAddIsolator sne opts ''cpu'' limit) (\<lambda>opts'. isolatorOpts sne opts' rest)
      | LinuxCapabilitiesSet caps \<Rightarrow> isolatorOpts sne opts rest
      | OtherIsolatorValue \<Rightarrow> isolatorOpts sne opts rest)"

text \<open>
  The loop over the socket-activated ports: the directive for the protocol, then the
  port of the host, or the port of the image with a warning in the log when
  \<open>findHostPort\<close> gives 0.
\<close>

fun socketOpts :: "PodManifest \<Rightarrow> UnitOption list \<Rightarrow> Port list \<Rightarrow> UnitOption list io" where
  "socketOpts pm sockopts [] = pureIO sockopts"
| "socketOpts pm sockopts (sap # saps) =
     (case (if Port_Protocol sap = ''tcp'' then Some ''ListenStream''
            else if Port_Protocol sap = ''udp'' then Some ''ListenDatagram''
            else None) of
        None \<Rightarrow> failIO (UnrecognizedProtocol (Port_Protocol sap))
      | Some proto \<Rightarrow>
          bindIO
            (if findHostPort pm (Port_Name sap) = 0
             then (Inr (Port_Port sap), [LoggedNoHostPort (Port_Name sap) (Port_Port sap)])
             else pureIO (findHostPort pm (Port_Name sap)))
            (\<lambda>port. socketOpts pm (sockopts @ [NewUnitOption ''Socket'' proto (Itoa (int port))]) saps))"

text \<open>
  The block for the socket-activated ports: the socket unit is built (from the four
  options of \<open>socketUnitHeader\<close> on), written and linked, and the service gets to
  require it.
\<close>

definition socketUnitHeader :: "pkgs \<Rightarrow> string \<Rightarrow> string \<Rightarrow> UnitOption list" where
  "socketUnitHeader k appName imgName =
     [NewUnitOption ''Unit'' ''Description''
        (''Application='' @ appName @ '' Image='' @ imgName @ '' socket-activated ports''),
      NewUnitOption ''Unit'' ''DefaultDependencies'' ''false'',
      NewUnitOption ''Socket'' ''BindIPv6Only'' ''both'',
      NewUnitOption ''Socket'' ''Service'' (ServiceUnitName k appName)]"

definition socketUnit :: "host \<Rightarrow> pkgs \<Rightarrow> Pod \<Rightarrow> string \<Rightarrow> string \<Rightarrow> Port list \<Rightarrow> UnitOption list \<Rightarrow> UnitOption list io" where
  "socketUnit h k p appName imgName saPorts opts =
     bindIO (socketOpts (Manifest p) (socketUnitHeader k appName imgName) saPorts)
       (\<lambda>sockopts.
          bindIO (writeUnitFile h (SocketUnitPath k (Root p) appName) sockopts
                    ''failed to create socket file'' ''failed to write socket unit file'')
            (\<lambda>_.
               bindIO (wrapIO ''failed to link socket want''
                         (perform (osFails h) ''symlink''
                            (Symlinked (Join [''..'', SocketUnitName k appName])
                               (SocketWantPath k (Root p) appName))))
                 (\<lambda>_. pureIO (opts @ [NewUnitOption ''Unit'' ''Requires''
                                        (SocketUnitName k appName)]))))"

text \<open>
  The options of the service as \<open>appToSystemd\<close> first builds them: the fixed ones,
  those for the terminal or the journal, and the failure action. \<open>exec0\<close> is
  \<^verbatim>\<open>app.Exec[0]\<close>.
\<close>

definition serviceOpts ::
  "pkgs \<Rightarrow> Pod \<Rightarrow> RuntimeApp \<Rightarrow> bool \<Rightarrow> string \<Rightarrow> int \<Rightarrow> int \<Rightarrow> string \<Rightarrow> string \<Rightarrow> UnitOption list" where
  "serviceOpts k p ra interactive workDir u g exec0 execStartString =
     (let app = RuntimeApp_App ra;
          appName = RuntimeApp_Name ra;
          imgName = AppNameToImageName p appName;
          supplementaryGroups = map Itoa (SupplementaryGIDs app);
          capabilities = Isolators app @ [appDefaultCapabilities];
          capabilitiesStr = GetAppCapabilities capabilities
      in [NewUnitOption ''Unit'' ''Description''
            (''Application='' @ appName @ '' Image='' @ imgName),
          NewUnitOption ''Unit'' ''DefaultDependencies'' ''false'',
          NewUnitOption ''Unit'' ''Wants'' (''reaper-'' @ appName @ ''.service''),
          NewUnitOption ''Service'' ''Restart'' ''no'',
          NewUnitOption ''Service'' ''ExecStart'' execStartString,
          NewUnitOption ''Service'' ''RootDirectory'' (RelAppRootfsPath k appName),
          NewUnitOption ''Service'' ''WorkingDirectory'' workDir,
          NewUnitOption ''Service'' ''EnvironmentFile'' (RelEnvFilePathSystemd k appName),
          NewUnitOption ''Service'' ''User'' (Itoa u),
          NewUnitOption ''Service'' ''Group'' (Itoa g),
          NewUnitOption ''Service'' ''SupplementaryGroups'' (JoinStr supplementaryGroups '' ''),
          NewUnitOption ''Service'' ''CapabilityBoundingSet'' (JoinStr capabilitiesStr '' '')]
         @ (if interactive
            then [NewUnitOption ''Service'' ''StandardInput'' ''tty'',
                  NewUnitOption ''Service'' ''StandardOutput'' ''tty'',
                  NewUnitOption ''Service'' ''StandardError'' ''tty'']
            else [NewUnitOption ''Service'' ''StandardOutput'' ''journal+console'',
                  NewUnitOption ''Service'' ''StandardError'' ''journal+console'',
                  NewUnitOption ''Service'' ''SyslogIdentifier'' (Base exec0)])
         @ [NewUnitOption ''Unit'' ''OnFailure'' ''halt.target''])"

text \<open>
  The end of \<open>appToSystemd\<close>: the last four options, the service unit written and
  linked, and the reaper of the app.
\<close>

definition finishService :: "host \<Rightarrow> pkgs \<Rightarrow> Pod \<Rightarrow> string \<Rightarrow> UnitOption list \<Rightarrow> unit io" where
  "finishService h k p appName opts =
     (let opts' = opts @
            [NewUnitOption ''Unit'' ''Requires'' (InstantiatedPrepareAppUnitName k appName),
             NewUnitOption ''Unit'' ''After'' (InstantiatedPrepareAppUnitName k appName),
             NewUnitOption ''Unit'' ''Requires'' ''sysusers.service'',
             NewUnitOption ''Unit'' ''After'' ''sysusers.service'']
      in bindIO (writeUnitFile h (ServiceUnitPath k (Root p) appName) opts'
                   ''failed to create service unit file'' ''failed to write service unit file'')
           (\<lambda>_.
              bindIO (wrapIO ''failed to link service want''
                        (perform (osFails h) ''symlink''
                           (Symlinked (Join [''..'', ServiceUnitName k appName])
                              (ServiceWantPath k (Root p) appName))))
                (\<lambda>_. wrapIO (''failed to write app '' @ Quote k appName @ '' reaper service'')
                        (writeAppReaper h k p appName))))"

text \<open>
  \<open>appToSystemd\<close> from the options of the service on, with the ids and the path of
  the executable that the first part has found; \<open>exec0\<close> is \<^verbatim>\<open>app.Exec[0]\<close> and
  \<open>execRest\<close> is \<^verbatim>\<open>app.Exec[1:]\<close>. In the order of the source: the command line
  is quoted, the options are built, the event handlers, the start timeout, the
  isolators, the socket unit when a port is socket-activated, and the end.
\<close>

definition appUnits ::
  "host \<Rightarrow> pkgs \<Rightarrow> Pod \<Rightarrow> RuntimeApp \<Rightarrow> bool \<Rightarrow> string \<Rightarrow> int \<Rightarrow> int \<Rightarrow> string
     \<Rightarrow> string \<Rightarrow> string list \<Rightarrow> unit io" where
  "appUnits h k p ra interactive workDir u g binPath exec0 execRest =
     (let app = RuntimeApp_App ra;
          appName = RuntimeApp_Name ra;
          imgName = AppNameToImageName p appName;
          execStart = binPath # execRest;
          saPorts = filter Port_SocketActivated (Ports app)
      in bindIO (liftIO (quoteExec (Quote k) execStart))
           (\<lambda>execStartString.
              bindIO (liftIO (eventHandlerOpts (Quote k)
                                (serviceOpts k p ra interactive workDir u g exec0 execStartString)
                                (EventHandlers app)))
                (\<lambda>opts1.
                   bindIO (isolatorOpts (statNotExist h)
                             (opts1 @ [NewUnitOption ''Service'' ''TimeoutStartSec'' ''0''])
                             (Isolators app))
                     (\<lambda>opts2.
                        bindIO (if length saPorts > 0
                                then socketUnit h k p appName imgName saPorts opts2
                                else pureIO opts2)
                          (\<lambda>opts3. finishService h k p appName opts3)))))"

text \<open>
  The first part of \<open>appToSystemd\<close> after the guard: the uid range, the two
  environment files, the ids, the sysusers file and the path of the executable. It
  gives the uid, the gid and the path.
\<close>

definition appPrepare ::
  "host \<Rightarrow> pkgs \<Rightarrow> Pod \<Rightarrow> RuntimeApp \<Rightarrow> (string \<times> string) list \<Rightarrow> string \<Rightarrow> string
     \<Rightarrow> (int \<times> int \<times> string) io" where
  "appPrepare h k p ra env exec0 privateUsers =
     (let app = RuntimeApp_App ra;
          appName = RuntimeApp_Name ra;
          envFilePathSystemd = EnvFilePathSystemd k (Root p) appName;
          envFilePathEnterexec = EnvFilePathEnterexec k (Root p) appName
      in bindIO (liftIO (Deserialize k privateUsers))
           (\<lambda>uidRange.
              bindIO (wrapIO ''unable to write environment file for systemd''
                        (writeEnvFile h env uidRange (CHR 0x0A) envFilePathSystemd))
                (\<lambda>_.
                   bindIO (wrapIO ''unable to write environment file for enterexec''
                             (writeEnvFile h env uidRange (CHR 0x00) envFilePathEnterexec))
                     (\<lambda>_.
                        bindIO (liftIO (parseUserGroup h k p ra uidRange))
                          (\<lambda>(u, g).
                             bindIO (wrapIO ''unable to generate sysusers''
                                       (generateSysusers h k p ra u g uidRange))
                               (\<lambda>_.
                                  bindIO (liftIO (if IsAbs exec0 then Inr exec0
                                                  else findBinPath h k p appName app exec0))
                                    (\<lambda>binPath. pureIO (u, g, binPath))))))))"

text \<open>
  \<open>appToSystemd\<close>: the guard on the executable (an empty \<^verbatim>\<open>Exec\<close> is the first case),
  the working directory and the environment, the first part, then the units. The
  arguments \<open>interactive\<close>, \<open>flavor\<close> and \<open>privateUsers\<close> are those of the source.
\<close>

definition appToSystemd :: "host \<Rightarrow> pkgs \<Rightarrow> Pod \<Rightarrow> RuntimeApp \<Rightarrow> bool \<Rightarrow> string \<Rightarrow> string \<Rightarrow> unit io" where
  "appToSystemd h k p ra interactive flavor privateUsers =
     (let app = RuntimeApp_App ra;
          appName = RuntimeApp_Name ra;
          imgName = AppNameToImageName p appName
      in case Exec app of
           [] \<Rightarrow> failIO (EmptyExec imgName)
         | exec0 # execRest \<Rightarrow>
             let workDir = (if WorkingDirectory app \<noteq> [] then WorkingDirectory app else ''/'');
                 env1 = envSet (Environment app) ''AC_APP_NAME'' appName;
                 env = (if MetadataServiceURL p \<noteq> []
                        then envSet env1 ''AC_METADATA_URL'' (MetadataServiceURL p) else env1)
             in bindIO (appPrepare h k p ra env exec0 privateUsers)
                  (\<lambda>(u, g, binPath).
                     appUnits h k p ra interactive workDir u g binPath exec0 execRest))"

text \<open>\<open>PodToSystemd\<close>: every app in turn, then the shutdown service.\<close>

fun appsToSystemd :: "host \<Rightarrow> pkgs \<Rightarrow> Pod \<Rightarrow> bool \<Rightarrow> string \<Rightarrow> string \<Rightarrow> RuntimeApp list \<Rightarrow> unit io" where
  "appsToSystemd h k p interactive flavor privateUsers [] = pureIO ()"
| "appsToSystemd h k p interactive flavor privateUsers (ra # ras) =
     bindIO (wrapIO (''failed to transform app '' @ Quote k (RuntimeApp_Name ra)
                     @ '' into systemd service'')
               (appToSystemd h k p ra interactive flavor privateUsers))
       (\<lambda>_. appsToSystemd h k p interactive flavor privateUsers ras)"

definition PodToSystemd :: "host \<Rightarrow> pkgs \<Rightarrow> Pod \<Rightarrow> bool \<Rightarrow> string \<Rightarrow> string \<Rightarrow> unit io" where
  "PodToSystemd h k p interactive flavor privateUsers =
     bindIO (appsToSystemd h k p interactive flavor privateUsers (Manifest_Apps (Manifest p)))
       (\<lambda>_. wrapIO ''failed to write shutdown service'' (writeShutdownService h k p))"

section \<open>Reading what was written\<close>

text \<open>The options written into a unit file, and the values of one key among options.\<close>

definition unitOptsWritten :: "string \<Rightarrow> event list \<Rightarrow> UnitOption list" where
  "unitOptsWritten file evs =
     concat (map (\<lambda>e. case e of WroteUnit f opts \<Rightarrow> if f = file then opts else [] | _ \<Rightarrow> []) evs)"

definition optionValues :: "string \<Rightarrow> string \<Rightarrow> UnitOption list \<Rightarrow> string list" where
  "optionValues section name opts =
     map Value (filter (\<lambda>opt. Section opt = section \<and> Name opt = name) opts)"

section \<open>What the loops of appToSystemd come to\<close>

text \<open>
  An isolator is honoured when it is a memory or CPU resource with a limit and the
  kernel supports its controller; an honoured isolator gives one option.
\<close>

definition honoured :: "(string \<Rightarrow> bool) \<Rightarrow> Isolator \<Rightarrow> bool" where
  "honoured sne i =
     (case Isolator_Value i of
        ResourceMemory limit \<Rightarrow> limit \<noteq> None \<and> IsIsolatorSupported sne ''memory''
      | ResourceCPU limit \<Rightarrow> limit \<noteq> None \<and> IsIsolatorSupported sne ''cpu''
      | LinuxCapabilitiesSet caps \<Rightarrow> False
      | OtherIsolatorValue \<Rightarrow> False)"

definition isolatorOption :: "Isolator \<Rightarrow> UnitOption" where
  "isolatorOption i =
     (case Isolator_Value i of
        ResourceMemory limit \<Rightarrow>
          NewUnitOption ''Service'' ''MemoryLimit'' (Itoa (sint (QValue (the limit))))
      | ResourceCPU limit \<Rightarrow>
          NewUnitOption ''Service'' ''CPUQuota''
            (Itoa (sint (div64 (MilliValue (the limit)) 10)) @ ''%'')
      | LinuxCapabilitiesSet caps \<Rightarrow> NewUnitOption [] [] []
      | OtherIsolatorValue \<Rightarrow> NewUnitOption [] [] [])"

text \<open>
  The host port that the pod manifest declares for a port name: that of the last entry
  with the name, if there is one. The port to listen on is this host port unless it is
  missing or 0, and the port of the image then.
\<close>

definition hostPortOf :: "PodManifest \<Rightarrow> string \<Rightarrow> nat option" where
  "hostPortOf pm name =
     (case filter (\<lambda>e. ExposedPort_Name e = name) (Manifest_Ports pm) of
        [] \<Rightarrow> None
      | e # es \<Rightarrow> Some (ExposedPort_HostPort (last (e # es))))"

definition listenPort :: "PodManifest \<Rightarrow> Port \<Rightarrow> nat" where
  "listenPort pm sap =
     (case hostPortOf pm (Port_Name sap) of
        None \<Rightarrow> Port_Port sap
      | Some hp \<Rightarrow> if hp = 0 then Port_Port sap else hp)"

definition listenDirective :: "Port \<Rightarrow> string" where
  "listenDirective sap = (if Port_Protocol sap = ''tcp'' then ''ListenStream'' else ''ListenDatagram'')"

definition socketOption :: "PodManifest \<Rightarrow> Port \<Rightarrow> UnitOption" where
  "socketOption pm sap =
     NewUnitOption ''Socket'' (listenDirective sap) (Itoa (int (listenPort pm sap)))"

section \<open>A pod to run the code on\<close>

text \<open>
  A host on which every call succeeds and the cgroup knobs exist, the stage1 of flavor
  \<^verbatim>\<open>src\<close> with systemd v222; names and paths as package \<^verbatim>\<open>common\<close> builds them; a
  quoting that fits strings of plain letters, digits and slashes.
\<close>

definition demoPkgs :: pkgs where
  "demoPkgs =
     \<lparr>Quote = (\<lambda>s. [CHR 0x22] @ s @ [CHR 0x22]),
      Deserialize = (\<lambda>s. Inr \<lparr>Shift = 0, Count = 0\<rparr>),
      UnshiftRange = (\<lambda>r u g. Inr (u - Shift r, g - Shift r)),
      LookupUidFromFile = (\<lambda>name file. Inl (OSError ''passwd'')),
      LookupGidFromFile = (\<lambda>name file. Inl (OSError ''group'')),
      Stage1RootfsPath = (\<lambda>root. Join [root, ''stage1/rootfs'']),
      AppRootfsPath = (\<lambda>root name. Join [root, ''stage1/rootfs/opt/stage2'', name, ''rootfs'']),
      RelAppRootfsPath = (\<lambda>name. Join [''/opt/stage2'', name, ''rootfs'']),
      EnvFilePathSystemd = (\<lambda>root name. Join [root, ''stage1/rootfs/rkt/env'', name]),
      EnvFilePathEnterexec = (\<lambda>root name. Join [root, ''stage1/rootfs/rkt/env'', ''enterexec'', name]),
      RelEnvFilePathSystemd = (\<lambda>name. Join [''/rkt/env'', name]),
      UnitsDir = ''usr/lib/systemd/system'',
      ServiceUnitName = (\<lambda>name. name @ ''.service''),
      ServiceUnitPath = (\<lambda>root name.
        Join [root, ''stage1/rootfs/usr/lib/systemd/system'', name @ ''.service'']),
      ServiceWantPath = (\<lambda>root name.
        Join [root, ''stage1/rootfs/usr/lib/systemd/system/default.target.wants'',
              name @ ''.service'']),
      SocketUnitName = (\<lambda>name. name @ ''.socket''),
      SocketUnitPath = (\<lambda>root name.
        Join [root, ''stage1/rootfs/usr/lib/systemd/system'', name @ ''.socket'']),
      SocketWantPath = (\<lambda>root name.
        Join [root, ''stage1/rootfs/usr/lib/systemd/system/sockets.target.wants'',
              name @ ''.socket'']),
      InstantiatedPrepareAppUnitName = (\<lambda>name. ''prepare-app@'' @ name @ ''.service''),
      HostSystemdVersion = Inr 229\<rparr>"

definition demoHost :: host where
  "demoHost =
     \<lparr>osFails = (\<lambda>ev. False),
      statNotExist = (\<lambda>path. False),
      lstat = fsOf [(''/pod/stage1/rootfs/flavor'', Symlink ''src'')],
      statMode = (\<lambda>path. None),
      lstatOwner = (\<lambda>path. None),
      getwd = Inr ''/'',
      readFile = (\<lambda>path. if path = ''/pod/stage1/rootfs/systemd-version''
                          then Some (''v222'' @ [CHR 0x0A]) else None)\<rparr>"



definition demoApp :: App where
  "demoApp =
     \<lparr>Exec = [''/bin/server'', ''--port'', ''80''],
      EventHandlers = [],
      User = ''root'',
      Group = ''root'',
      SupplementaryGIDs = [],
      WorkingDirectory = [],
      Environment = [],
      Ports = [],
      Isolators = []\<rparr>"

definition demoPod :: "ExposedPort list \<Rightarrow> Pod" where
  "demoPod ports =
     \<lparr>Root = ''/pod'',
      Manifest = \<lparr>Manifest_Apps = [], Manifest_Ports = ports\<rparr>,
      MetadataServiceURL = [],
      AppNameToImageName = (\<lambda>name. ''example.com/'' @ name)\<rparr>"

definition halfCpu :: Quantity where
  "halfCpu = \<lparr>Amount = Some \<lparr>unscaled = 500, scale = 3\<rparr>\<rparr>"

definition oneCpu :: Quantity where
  "oneCpu = \<lparr>Amount = Some \<lparr>unscaled = 1, scale = 0\<rparr>\<rparr>"





definition mem100M :: Quantity where
  "mem100M = \<lparr>Amount = Some \<lparr>unscaled = 104857600, scale = 0\<rparr>\<rparr>"

definition cpuIsolator :: "Quantity \<Rightarrow> Isolator" where
  "cpuIsolator q = \<lparr>Isolator_Name = ''resource/cpu'', Isolator_Value = ResourceCPU (Some q)\<rparr>"

definition memoryIsolator :: "Quantity \<Rightarrow> Isolator" where
  "memoryIsolator q =
     \<lparr>Isolator_Name = ''resource/memory'', Isolator_Value = ResourceMemory (Some q)\<rparr>"

definition httpPort :: "string \<Rightarrow> Port" where
  "httpPort proto =
     \<lparr>Port_Name = ''http'', Port_Protocol = proto, Port_Port = 80, Port_SocketActivated = True\<rparr>"

definition webApp :: "App \<Rightarrow> RuntimeApp" where
  "webApp app = \<lparr>RuntimeApp_Name = ''web'', RuntimeApp_App = app\<rparr>"


section \<open>Facts about strings and paths\<close>

lemma Split_sep_free: "sep \<notin> set c \<Longrightarrow> Split (c @ sep # s) sep = c # Split s sep"
  by (induction c) (auto split: list.splits)

lemma Split_single: "sep \<notin> set c \<Longrightarrow> Split c sep = [c]"
  by (induction c) (auto split: list.splits)

lemma Split_JoinStr:
  "xs \<noteq> [] \<Longrightarrow> \<forall>x \<in> set xs. sep \<notin> set x \<Longrightarrow> Split (JoinStr xs [sep]) sep = xs"
proof (induction xs "[sep]" rule: JoinStr.induct)
  case 1 then show ?case by simp
next
  case (2 x) then show ?case by (simp add: Split_single)
next
  case (3 x y ys) then show ?case by (simp add: Split_sep_free)
qed

lemma JoinStr_append:
  "xs \<noteq> [] \<Longrightarrow> ys \<noteq> [] \<Longrightarrow> JoinStr (xs @ ys) sep = JoinStr xs sep @ sep @ JoinStr ys sep"
  by (induction xs sep rule: JoinStr.induct) (auto; (cases ys; simp))+

lemma JoinStr_Cons: "ys \<noteq> [] \<Longrightarrow> JoinStr (x # ys) sep = x @ sep @ JoinStr ys sep"
  by (cases ys) auto

lemma rootedPath_JoinStr: "rootedPath cs = (if cs = [] then [] else JoinStr ([] # cs) ''/'')"
  by (induction cs) (auto simp: rootedPath_def JoinStr_Cons)

lemma rootedPath_append: "rootedPath (xs @ ys) = rootedPath xs @ rootedPath ys"
  by (simp add: rootedPath_def)


lemma normalElem_nonempty: "normalElem c \<Longrightarrow> c \<noteq> []"
  by (simp add: normalElem_def)

lemma normalElem_no_sep: "normalElem c \<Longrightarrow> CHR ''/'' \<notin> set c"
  by (simp add: normalElem_def)

lemma cleanStep_normal: "normalElem c \<Longrightarrow> cleanStep r st c = c # st"
  by (simp add: cleanStep_def normalElem_def)

lemma cleanStep_empty: "cleanStep r st [] = st"
  by (simp add: cleanStep_def)

lemma foldl_cleanStep_plain:
  "\<forall>c \<in> set cs. c = [] \<or> normalElem c \<Longrightarrow>
   foldl (cleanStep r) st cs = rev (filter (\<lambda>c. c \<noteq> []) cs) @ st"
proof (induction cs arbitrary: st)
  case Nil
  then show ?case by simp
next
  case (Cons c cs)
  then have ih: "\<And>st. foldl (cleanStep r) st cs = rev (filter (\<lambda>c. c \<noteq> []) cs) @ st"
    by simp
  from Cons.prems have "c = [] \<or> normalElem c" by simp
  then show ?case
  proof
    assume "c = []"
    then show ?thesis by (simp add: cleanStep_empty ih)
  next
    assume "normalElem c"
    then show ?thesis by (simp add: cleanStep_normal normalElem_nonempty ih)
  qed
qed

lemma Clean_rooted:
  assumes plain: "\<forall>c \<in> set cs. c = [] \<or> normalElem c"
    and ne: "filter (\<lambda>c. c \<noteq> []) cs \<noteq> []"
  shows "Clean (JoinStr ([] # cs) ''/'') = rootedPath (filter (\<lambda>c. c \<noteq> []) cs)"
proof -
  let ?p = "JoinStr ([] # cs) ''/''"
  let ?f = "filter (\<lambda>c. c \<noteq> []) cs"
  from ne have cs: "cs \<noteq> []" by (cases cs) simp_all
  have "\<forall>x \<in> set cs. CHR ''/'' \<notin> set x"
  proof
    fix x assume "x \<in> set cs"
    with plain have "x = [] \<or> normalElem x" by blast
    then show "CHR ''/'' \<notin> set x" using normalElem_no_sep by fastforce
  qed
  then have nosep: "\<forall>x \<in> set ([] # cs). CHR ''/'' \<notin> set x" by simp
  have sp: "Split ?p CHR ''/'' = [] # cs"
    using Split_JoinStr [of "[] # cs" "CHR ''/''"] nosep by simp
  have shape: "?p = CHR ''/'' # JoinStr cs ''/''"
    using cs by (simp add: JoinStr_Cons)
  then have abs: "IsAbs ?p" and nonempty: "?p \<noteq> []"
    by (simp_all add: IsAbs_def HasPrefix_def)
  have st: "foldl (cleanStep True) [] (Split ?p CHR ''/'') = rev ?f"
    using plain by (simp only: sp) (simp add: cleanStep_empty foldl_cleanStep_plain)
  have out: "''/'' @ JoinStr ?f ''/'' = rootedPath ?f"
    using ne by (simp add: rootedPath_JoinStr JoinStr_Cons)
  have "Clean ?p = ''/'' @ JoinStr (rev (rev ?f)) ''/''"
    unfolding Clean_def Let_def using abs nonempty by (simp only: st if_True if_False) simp
  then show ?thesis using out by simp
qed

lemma filter_normal: "\<forall>c \<in> set rs. normalElem c \<Longrightarrow> filter (\<lambda>c. c \<noteq> []) rs = rs"
  by (induction rs) (simp_all add: normalElem_nonempty)

lemma Join_under_root:
  assumes rs: "\<forall>c \<in> set rs. normalElem c" "rs \<noteq> []"
    and xs: "\<forall>c \<in> set xs. c = [] \<or> normalElem c"
  shows "Join (rootedPath rs # xs) = rootedPath (rs @ filter (\<lambda>c. c \<noteq> []) xs)"
proof -
  have r: "rootedPath rs = JoinStr ([] # rs) ''/''"
    using rs(2) by (simp add: rootedPath_JoinStr)
  have rne: "rootedPath rs \<noteq> []"
    using rs(2) by (cases rs) (simp_all add: rootedPath_def)
  have js: "JoinStr (rootedPath rs # xs) ''/'' = JoinStr ([] # (rs @ xs)) ''/''"
  proof (cases "xs = []")
    case True then show ?thesis by (simp add: r)
  next
    case False
    have "JoinStr (([] # rs) @ xs) ''/'' = JoinStr ([] # rs) ''/'' @ ''/'' @ JoinStr xs ''/''"
      using False by (intro JoinStr_append) simp_all
    moreover have "JoinStr (rootedPath rs # xs) ''/'' = rootedPath rs @ ''/'' @ JoinStr xs ''/''"
      using False by (rule JoinStr_Cons)
    ultimately show ?thesis by (simp add: r)
  qed
  have all: "\<forall>c \<in> set (rs @ xs). c = [] \<or> normalElem c"
    using rs(1) xs by auto
  have f: "filter (\<lambda>c. c \<noteq> []) (rs @ xs) = rs @ filter (\<lambda>c. c \<noteq> []) xs"
    using filter_normal [OF rs(1)] by simp
  then have "filter (\<lambda>c. c \<noteq> []) (rs @ xs) \<noteq> []"
    using rs(2) by simp
  then have "Clean (JoinStr ([] # (rs @ xs)) ''/'') = rootedPath (filter (\<lambda>c. c \<noteq> []) (rs @ xs))"
    using all by (intro Clean_rooted)
  then have "Clean (JoinStr (rootedPath rs # xs) ''/'') = rootedPath (rs @ filter (\<lambda>c. c \<noteq> []) xs)"
    by (simp only: js f)
  then show ?thesis
    using rne by (simp add: Join_def)
qed

lemma Split_rootedPath:
  assumes "\<forall>c \<in> set cs. normalElem c"
  shows "Split (rootedPath cs) CHR ''/'' = (if cs = [] then [[]] else [] # cs)"
proof (cases "cs = []")
  case True
  then show ?thesis by (simp add: rootedPath_def)
next
  case False
  have "\<forall>x \<in> set ([] # cs). CHR ''/'' \<notin> set x"
    using assms normalElem_no_sep by simp
  then have "Split (JoinStr ([] # cs) [CHR ''/'']) CHR ''/'' = [] # cs"
    by (intro Split_JoinStr) simp_all
  then show ?thesis using False by (simp add: rootedPath_JoinStr)
qed

lemma evalLoop_plain:
  assumes rs: "\<forall>c \<in> set rs. normalElem c" "rs \<noteq> []"
  shows "\<forall>c \<in> set (done @ todo). normalElem c \<Longrightarrow>
    (\<And>k. k \<le> length todo \<Longrightarrow> fs (rootedPath (rs @ done @ take k todo)) = NotSymlink) \<Longrightarrow>
    evalLoop fs (rootedPath rs) path (rootedPath (rs @ done)) todo
      = Inr (rootedPath (rs @ done @ todo))"
proof (induction todo arbitrary: "done")
  case Nil
  then show ?case by simp
next
  case (Cons c todo)
  have norm: "\<forall>x \<in> set (rs @ done). normalElem x" "rs @ done \<noteq> []"
    using rs Cons.prems(1) by auto
  have c: "normalElem c" using Cons.prems(1) by simp
  then have cne: "c \<noteq> []" by (rule normalElem_nonempty)
  have "\<forall>x \<in> set [c]. x = [] \<or> normalElem x" using c by simp
  from Join_under_root [OF norm this]
  have next_eq: "Join [rootedPath (rs @ done), c] = rootedPath (rs @ done @ [c])"
    using cne by simp
  have st: "fs (rootedPath (rs @ done @ [c])) = NotSymlink"
    using Cons.prems(2) [of 1] by simp
  have ih: "evalLoop fs (rootedPath rs) path (rootedPath (rs @ (done @ [c]))) todo
      = Inr (rootedPath (rs @ (done @ [c]) @ todo))"
  proof (rule Cons.IH)
    show "\<forall>x \<in> set ((done @ [c]) @ todo). normalElem x" using Cons.prems(1) by auto
  next
    fix k assume "k \<le> length todo"
    then show "fs (rootedPath (rs @ (done @ [c]) @ take k todo)) = NotSymlink"
      using Cons.prems(2) [of "Suc k"] by simp
  qed
  have pre: "HasPrefix (rootedPath (rs @ done @ [c])) (rootedPath rs)"
    by (simp add: HasPrefix_def rootedPath_append)
  show ?case
    using next_eq st ih pre by simp
qed

lemma allComponentsPlain_rooted:
  assumes rs: "\<forall>c \<in> set rs. normalElem c" "rs \<noteq> []"
    and cs: "\<forall>c \<in> set cs. normalElem c"
    and plain: "allComponentsPlain fs (rootedPath rs) (rootedPath cs)"
    and k: "k \<le> length cs"
  shows "fs (rootedPath (rs @ take k cs)) = NotSymlink"
proof -
  let ?sp = "Split (rootedPath cs) CHR ''/''"
  have sp: "?sp = (if cs = [] then [[]] else [] # cs)" by (rule Split_rootedPath [OF cs])
  have "\<forall>c \<in> set ?sp. c = [] \<or> normalElem c"
    using cs by (simp add: sp)
  then have el: "\<forall>c \<in> set (take (Suc k) ?sp). c = [] \<or> normalElem c"
    by (meson in_set_takeD)
  have "Suc k \<in> set [0 ..< Suc (length ?sp)]" using k by (auto simp: sp)
  then have "fs (Join (rootedPath rs # take (Suc k) ?sp)) = NotSymlink"
    using plain unfolding allComponentsPlain_def by blast
  moreover have "filter (\<lambda>c. c \<noteq> []) (take (Suc k) ?sp) = take k cs"
  proof -
    have "\<forall>c \<in> set (take k cs). normalElem c" using cs by (meson in_set_takeD)
    then have "filter (\<lambda>c. c \<noteq> []) (take k cs) = take k cs" by (rule filter_normal)
    then show ?thesis using k by (simp add: sp)
  qed
  ultimately show ?thesis
    using Join_under_root [OF rs el] by simp
qed


section \<open>PathResolver: results\<close>

text \<open>
  Claim C1. Every call of \<open>evaluateSymlinksInsideApp\<close> should either stay inside the
  app root or return an error, also when a symbolic link's target is substituted. The
  test of containment compares strings: with the app root \<^verbatim>\<open>/app\<close> and a link
  \<^verbatim>\<open>/app/link\<close> to \<^verbatim>\<open>../app2\<close>, the substitution gives \<^verbatim>\<open>/app2\<close>, a sibling of the
  root, which passes the test because \<^verbatim>\<open>/app\<close> is a prefix of its name; the call
  returns the truncated path \<^verbatim>\<open>2\<close> and no error.
\<close>

theorem evaluateSymlinksInsideApp_sibling_escape:
  "fs_sibling ''/app/link'' = Symlink ''../app2''
   \<and> Join [''/app'', ''../app2''] = ''/app2''
   \<and> evaluateSymlinksInsideApp fs_sibling ''/app'' ''link'' = Inr ''2''"
  by code_simp

text \<open>
  Claim C6, as stated: a path all of whose components exist under the app root and
  none of which is a symbolic link is returned unchanged. It fails for the relative
  path \<^verbatim>\<open>bin\<close>, which comes back as \<^verbatim>\<open>/bin\<close>.
\<close>

theorem evaluateSymlinksInsideApp_relative_changed:
  "allComponentsPlain fs_plain ''/app'' ''bin''
   \<and> evaluateSymlinksInsideApp fs_plain ''/app'' ''bin'' = Inr ''/bin''
   \<and> evaluateSymlinksInsideApp fs_plain ''/app'' ''bin'' \<noteq> Inr ''bin''"
  by code_simp

text \<open>
  Claim C6, amended: under an app root that is a cleaned absolute path other than
  \<^verbatim>\<open>/\<close>, a path written the way the resolver writes its results (a slash before each
  element; no element empty, \<^verbatim>\<open>.\<close> or \<^verbatim>\<open>..\<close>), all of whose components exist under the
  root and none of which is a symbolic link, is returned unchanged.
\<close>

theorem evaluateSymlinksInsideApp_resolved_unchanged:
  assumes rs: "\<forall>c \<in> set rs. normalElem c" "rs \<noteq> []"
    and cs: "\<forall>c \<in> set cs. normalElem c"
    and plain: "allComponentsPlain fs (rootedPath rs) (rootedPath cs)"
  shows "evaluateSymlinksInsideApp fs (rootedPath rs) (rootedPath cs) = Inr (rootedPath cs)"
proof -
  have at: "\<And>k. k \<le> length cs \<Longrightarrow> fs (rootedPath (rs @ take k cs)) = NotSymlink"
    by (rule allComponentsPlain_rooted [OF rs cs plain])
  have root: "fs (rootedPath rs) = NotSymlink"
    using at [of 0] by simp
  have loop: "evalLoop fs (rootedPath rs) (rootedPath cs) (rootedPath (rs @ [])) cs
      = Inr (rootedPath (rs @ [] @ cs))"
    using cs at by (intro evalLoop_plain [OF rs]) simp_all
  have "\<forall>c \<in> set [[]]. c = [] \<or> normalElem c" by simp
  from Join_under_root [OF rs this]
  have first: "Join [rootedPath rs, []] = rootedPath rs" by simp
  have sp: "Split (rootedPath cs) CHR ''/'' = (if cs = [] then [[]] else [] # cs)"
    by (rule Split_rootedPath [OF cs])
  have pre: "HasPrefix (rootedPath rs) (rootedPath rs)" by (simp add: HasPrefix_def)
  have "evalLoop fs (rootedPath rs) (rootedPath cs) (rootedPath rs) (Split (rootedPath cs) CHR ''/'')
      = Inr (rootedPath rs @ rootedPath cs)"
  proof (cases "cs = []")
    case True
    then show ?thesis using first root pre by (simp add: sp rootedPath_def)
  next
    case False
    then show ?thesis using first root loop pre by (simp add: sp rootedPath_append)
  qed
  then show ?thesis
    by (simp add: evaluateSymlinksInsideApp_def TrimPrefix_def HasPrefix_def)
qed

theorem evaluateSymlinksInsideApp_resolved_unchanged_witness:
  "normalElem ''app'' \<and> normalElem ''bin'' \<and> normalElem ''sh''
   \<and> allComponentsPlain fs_plain (rootedPath [''app'']) (rootedPath [''bin'', ''sh''])
   \<and> evaluateSymlinksInsideApp fs_plain ''/app'' ''/bin/sh'' = Inr ''/bin/sh''"
proof -
  have a: "\<forall>c \<in> set [''app'']. normalElem c" by (simp add: normalElem_def)
  have b: "[''app''] \<noteq> ([] :: string list)" by simp
  have c: "\<forall>c \<in> set [''bin'', ''sh'']. normalElem c" by (simp add: normalElem_def)
  have d: "allComponentsPlain fs_plain (rootedPath [''app'']) (rootedPath [''bin'', ''sh''])"
    by code_simp
  have r1: "rootedPath [''app''] = ''/app''" by (simp add: rootedPath_def)
  have r2: "rootedPath [''bin'', ''sh''] = ''/bin/sh''" by (simp add: rootedPath_def)
  have "evaluateSymlinksInsideApp fs_plain (rootedPath [''app'']) (rootedPath [''bin'', ''sh''])
      = Inr (rootedPath [''bin'', ''sh''])"
    by (rule evaluateSymlinksInsideApp_resolved_unchanged [OF a b c d])
  then have e: "evaluateSymlinksInsideApp fs_plain ''/app'' ''/bin/sh'' = Inr ''/bin/sh''"
    by (simp only: r1 r2)
  have n: "normalElem ''app''" "normalElem ''bin''" "normalElem ''sh''"
    by (simp_all add: normalElem_def)
  from n d e show ?thesis by blast
qed

section \<open>IsolatorMapper: the limits\<close>





















section \<open>ControllerCatalog\<close>

lemma foldl_addLine:
  "foldl addLine m ls h =
     (case m h of
        None \<Rightarrow> (if controllersOf ls h = [] then None else Some (controllersOf ls h))
      | Some old \<Rightarrow> Some (old @ controllersOf ls h))"
proof (induction ls arbitrary: m)
  case Nil
  then show ?case by (simp add: controllersOf_def enabledLines_def split: option.splits)
next
  case (Cons l ls)
  show ?case
    by (simp add: Cons.IH) (auto simp: addLine_def Let_def controllersOf_def enabledLines_def split: option.splits)
qed

lemma foldl_upd_same:
  "foldl (\<lambda>m ln. m(ln \<mapsto> t)) links cs c = (if c \<in> set cs then Some t else links c)"
  by (induction cs arbitrary: links) auto

lemma addSymlinks_apply:
  "addSymlinks cg links h c =
     (case cg h of
        None \<Rightarrow> links c
      | Some cs \<Rightarrow> if length cs > 1 \<and> c \<in> set cs then Some (JoinStr cs '','') else links c)"
  by (simp add: addSymlinks_def foldl_upd_same split: option.splits)

lemma symlinks_untouched:
  "\<forall>h \<in> set order. \<forall>cs. cg h = Some cs \<longrightarrow> length cs > 1 \<longrightarrow> c \<notin> set cs \<Longrightarrow>
   foldl (addSymlinks cg) links order c = links c"
proof (induction order arbitrary: links)
  case Nil
  then show ?case by simp
next
  case (Cons a order)
  then have "foldl (addSymlinks cg) (addSymlinks cg links a) order c = addSymlinks cg links a c"
    by simp
  moreover have "addSymlinks cg links a c = links c"
    using Cons.prems by (auto simp: addSymlinks_apply split: option.splits)
  ultimately show ?case by simp
qed

lemma symlinks_combined:
  assumes disj: "\<And>h h' cs cs'. cg h = Some cs \<Longrightarrow> cg h' = Some cs' \<Longrightarrow> h \<noteq> h' \<Longrightarrow> set cs \<inter> set cs' = {}"
    and h: "cg h = Some cs" "length cs > 1" "c \<in> set cs"
  shows "h \<in> set order \<Longrightarrow> foldl (addSymlinks cg) links order c = Some (JoinStr cs '','')"
proof (induction order arbitrary: links)
  case Nil
  then show ?case by simp
next
  case (Cons a order)
  show ?case
  proof (cases "h \<in> set order")
    case True
    then show ?thesis using Cons.IH by simp
  next
    case False
    with Cons.prems have a: "a = h" by simp
    have "\<forall>h' \<in> set order. \<forall>cs'. cg h' = Some cs' \<longrightarrow> length cs' > 1 \<longrightarrow> c \<notin> set cs'"
    proof (intro ballI allI impI)
      fix h' cs' assume "h' \<in> set order" "cg h' = Some cs'"
      with False have "h \<noteq> h'" by auto
      with disj [OF h(1) \<open>cg h' = Some cs'\<close>] h(3) show "c \<notin> set cs'" by auto
    qed
    then have "foldl (addSymlinks cg) (addSymlinks cg links a) order c = addSymlinks cg links a c"
      by (rule symlinks_untouched)
    moreover have "addSymlinks cg links a c = Some (JoinStr cs '','')"
      using h a by (simp add: addSymlinks_apply)
    ultimately show ?thesis by simp
  qed
qed

lemma controllersOf_disjoint:
  assumes "distinct (map controller (enabledLines ls))" "h \<noteq> h'"
  shows "set (controllersOf ls h) \<inter> set (controllersOf ls h') = {}"
proof -
  have inj: "inj_on controller (set (enabledLines ls))"
    using assms(1) by (simp add: distinct_map)
  show ?thesis
  proof (rule ccontr)
    assume "set (controllersOf ls h) \<inter> set (controllersOf ls h') \<noteq> {}"
    then obtain c where "c \<in> set (controllersOf ls h)" "c \<in> set (controllersOf ls h')" by auto
    then obtain l l' where l: "l \<in> set (enabledLines ls)" "hierarchy l = h" "controller l = c"
      and l': "l' \<in> set (enabledLines ls)" "hierarchy l' = h'" "controller l' = c"
      by (auto simp: controllersOf_def)
    with inj have "l = l'" by (auto dest: inj_onD)
    with l l' assms(2) show False by simp
  qed
qed


lemma dom_foldl_addLine:
  "dom (foldl addLine Map.empty ls) = set (map hierarchy (enabledLines ls))"
proof -
  have "\<And>h. (controllersOf ls h \<noteq> []) = (h \<in> set (map hierarchy (enabledLines ls)))"
    by (auto simp: controllersOf_def filter_empty_conv)
  then show ?thesis
    by (auto simp: dom_def foldl_addLine)
qed


text \<open>
  Claim C5. For a well-formed listing (no enabled controller is listed twice),
  \<open>parseCgroups\<close> skips the header line, takes a controller if and only if its enabled
  flag is 1, and groups the controllers by hierarchy in the order of the listing; and
  \<open>getControllerSymlinks\<close>, in whatever order it visits the hierarchies, gives no link
  for the controller of a hierarchy with exactly one controller and maps every member
  of a hierarchy with more than one controller to the names joined by commas.
\<close>

theorem parseCgroups_getControllerSymlinks:
  assumes parse: "parseCgroups (header # rest) None = Inr cgroups"
    and wf: "distinct (map controller (enabledLines rest))"
    and ord: "set order = dom cgroups"
  shows "(\<forall>h. cgroups h = (if controllersOf rest h = [] then None else Some (controllersOf rest h)))
    \<and> (\<forall>h cs c. cgroups h = Some cs \<and> length cs = 1 \<and> c \<in> set cs
          \<longrightarrow> getControllerSymlinks order cgroups c = None)
    \<and> (\<forall>h cs c. cgroups h = Some cs \<and> length cs > 1 \<and> c \<in> set cs
          \<longrightarrow> getControllerSymlinks order cgroups c = Some (JoinStr cs '',''))"
proof -
  have cg: "cgroups = foldl addLine Map.empty rest"
    using parse by (simp add: parseCgroups_def)
  have groups: "\<And>h. cgroups h = (if controllersOf rest h = [] then None else Some (controllersOf rest h))"
    by (simp add: cg foldl_addLine)
  have disj: "\<And>h h' cs cs'. cgroups h = Some cs \<Longrightarrow> cgroups h' = Some cs' \<Longrightarrow> h \<noteq> h'
      \<Longrightarrow> set cs \<inter> set cs' = {}"
  proof -
    fix h h' cs cs' assume a: "cgroups h = Some cs" "cgroups h' = Some cs'" "h \<noteq> h'"
    then have "cs = controllersOf rest h" "cs' = controllersOf rest h'"
      by (auto simp: groups split: if_splits)
    then show "set cs \<inter> set cs' = {}"
      using controllersOf_disjoint [OF wf a(3)] by simp
  qed
  have single: "getControllerSymlinks order cgroups c = None"
    if "cgroups h = Some cs" "length cs = 1" "c \<in> set cs" for h cs c
  proof -
    have "\<forall>h' \<in> set order. \<forall>cs'. cgroups h' = Some cs' \<longrightarrow> length cs' > 1 \<longrightarrow> c \<notin> set cs'"
    proof (intro ballI allI impI)
      fix h' cs' assume b: "h' \<in> set order" "cgroups h' = Some cs'" "length cs' > 1"
      with that have "h \<noteq> h'" by auto
      with disj [OF that(1) b(2)] that(3) show "c \<notin> set cs'" by auto
    qed
    then show ?thesis
      unfolding getControllerSymlinks_def by (simp add: symlinks_untouched)
  qed
  have combined: "getControllerSymlinks order cgroups c = Some (JoinStr cs '','')"
    if "cgroups h = Some cs" "length cs > 1" "c \<in> set cs" for h cs c
  proof -
    have "h \<in> set order" using that(1) ord by auto
    then show ?thesis
      unfolding getControllerSymlinks_def
      using symlinks_combined [of cgroups h cs c order Map.empty] disj that by blast
  qed
  show ?thesis using groups single combined by blast
qed

text \<open>A listing with the hierarchy \<^verbatim>\<open>cpu,cpuacct\<close>, two single ones and a disabled controller.\<close>

theorem parseCgroups_getControllerSymlinks_witness:
  "parseCgroups (''#subsys_name hierarchy num_cgroups enabled'' # procCgroups) None
     = Inr (foldl addLine Map.empty procCgroups)
   \<and> distinct (map controller (enabledLines procCgroups))
   \<and> set [4, 2, 3] = dom (foldl addLine Map.empty procCgroups)
   \<and> foldl addLine Map.empty procCgroups 2 = Some [''cpu'', ''cpuacct'']
   \<and> foldl addLine Map.empty procCgroups 3 = Some [''memory'']
   \<and> foldl addLine Map.empty procCgroups 5 = None
   \<and> getControllerSymlinks [4, 2, 3] (foldl addLine Map.empty procCgroups) ''cpuacct''
       = Some ''cpu,cpuacct''
   \<and> getControllerSymlinks [4, 2, 3] (foldl addLine Map.empty procCgroups) ''memory'' = None"
proof -
  let ?cg = "foldl addLine Map.empty procCgroups"
  have p: "parseCgroups (''#subsys_name hierarchy num_cgroups enabled'' # procCgroups) None = Inr ?cg"
    by (simp add: parseCgroups_def)
  have wf: "distinct (map controller (enabledLines procCgroups))"
    by code_simp
  have "map hierarchy (enabledLines procCgroups) = [4, 2, 2, 3]"
    by code_simp
  then have ord: "set [4, 2, 3] = dom ?cg"
    by (simp only: dom_foldl_addLine) auto
  note t = parseCgroups_getControllerSymlinks [OF p wf ord]
  have c2: "controllersOf procCgroups 2 = [''cpu'', ''cpuacct'']" by code_simp
  have c3: "controllersOf procCgroups 3 = [''memory'']" by code_simp
  have c5: "controllersOf procCgroups 5 = []" by code_simp
  have g2: "?cg 2 = Some [''cpu'', ''cpuacct'']" using t c2 by simp
  have g3: "?cg 3 = Some [''memory'']" using t c3 by simp
  have g5: "?cg 5 = None" using t c5 by simp
  from t have single: "\<forall>h cs c. ?cg h = Some cs \<and> length cs = 1 \<and> c \<in> set cs
      \<longrightarrow> getControllerSymlinks [4, 2, 3] ?cg c = None"
    and combined: "\<forall>h cs c. ?cg h = Some cs \<and> length cs > 1 \<and> c \<in> set cs
      \<longrightarrow> getControllerSymlinks [4, 2, 3] ?cg c = Some (JoinStr cs '','')"
    by blast+
  have s1: "getControllerSymlinks [4, 2, 3] ?cg ''cpuacct'' = Some ''cpu,cpuacct''"
    using combined [rule_format, of 2 "[''cpu'', ''cpuacct'']" "''cpuacct''"] g2 by simp
  have s2: "getControllerSymlinks [4, 2, 3] ?cg ''memory'' = None"
    using single [rule_format, of 3 "[''memory'']" "''memory''"] g3 by simp
  from p wf ord g2 g3 g5 s1 s2 show ?thesis by simp
qed

section \<open>Sequences of calls\<close>

lemma bindIO_Inr:
  assumes "bindIO m f = (Inr y, tr)"
  obtains x t1 t2 where "m = (Inr x, t1)" "f x = (Inr y, t2)" "tr = t1 @ t2"
  using assms by (auto simp: bindIO_def split: prod.splits sum.splits)

lemma wrapIO_Inr: "wrapIO msg m = (Inr x, tr) \<Longrightarrow> m = (Inr x, tr)"
  by (auto simp: wrapIO_def split: prod.splits sum.splits)

lemma perform_Inr: "perform fails call ev = (Inr x, tr) \<Longrightarrow> tr = [ev]"
  by (auto simp: perform_def split: if_splits)

lemma writeUnitFile_Inr:
  assumes "writeUnitFile h file opts a b = (Inr x, tr)"
  shows "tr = [OpenedFile file, WroteUnit file opts]"
proof -
  from assms obtain u t1 t2
    where 1: "wrapIO a (perform (osFails h) ''open'' (OpenedFile file)) = (Inr u, t1)"
      and 2: "wrapIO b (perform (osFails h) ''copy'' (WroteUnit file opts)) = (Inr x, t2)"
      and tr: "tr = t1 @ t2"
    unfolding writeUnitFile_def by (rule bindIO_Inr)
  from 1 have "t1 = [OpenedFile file]" by (auto dest!: wrapIO_Inr perform_Inr)
  moreover from 2 have "t2 = [WroteUnit file opts]" by (auto dest!: wrapIO_Inr perform_Inr)
  ultimately show ?thesis using tr by simp
qed


section \<open>The shutdown service\<close>



section \<open>IdentityResolver: results\<close>




section \<open>Isolators\<close>

lemma MaybeAddIsolator_memory:
  assumes "MaybeAddIsolator sne opts ''memory'' limit = (Inr opts', evs)"
  shows "opts' = opts @ (if limit \<noteq> None \<and> IsIsolatorSupported sne ''memory''
                         then [NewUnitOption ''Service'' ''MemoryLimit'' (Itoa (sint (QValue (the limit))))]
                         else [])"
  using assms
  by (auto simp: MaybeAddIsolator_def isolatorFuncs_def addMemoryLimit_def
      split: option.splits if_splits)

lemma MaybeAddIsolator_cpu:
  assumes "MaybeAddIsolator sne opts ''cpu'' limit = (Inr opts', evs)"
  shows "opts' = opts @ (if limit \<noteq> None \<and> IsIsolatorSupported sne ''cpu''
                         then [NewUnitOption ''Service'' ''CPUQuota''
                                 (Itoa (sint (div64 (MilliValue (the limit)) 10)) @ ''%'')]
                         else [])"
  using assms
  by (auto simp: MaybeAddIsolator_def isolatorFuncs_def addCpuLimit_def Let_def
      split: option.splits if_splits)

text \<open>
  Claim C2, as stated: of several CPU isolators only the first is honoured, so that at
  most one CPU option reaches the service unit. It fails for an app with the two CPU
  isolators of half a CPU and of one CPU: the service unit gets both quotas.
\<close>

theorem appToSystemd_two_cpu_isolators:
  "optionValues ''Service'' ''CPUQuota''
     (unitOptsWritten ''/pod/stage1/rootfs/usr/lib/systemd/system/web.service''
        (snd (appToSystemd demoHost demoPkgs (demoPod [])
           (webApp (demoApp\<lparr>Isolators := [cpuIsolator halfCpu, cpuIsolator oneCpu]\<rparr>))
           False ''src'' [])))
   = [''50%'', ''100%'']"
  by code_simp

text \<open>
  Claim C2, amended: every CPU isolator and every memory isolator that has a limit and
  whose controller the kernel supports is honoured. When the loop over the isolators
  succeeds, it has appended one option for each of them, in the order in which the
  isolators are declared; several isolators of one kind give several options of that
  kind.
\<close>

theorem isolatorOpts_every_isolator:
  "isolatorOpts sne opts isolators = (Inr opts', evs) \<Longrightarrow>
   opts' = opts @ map isolatorOption (filter (honoured sne) isolators)"
proof (induction isolators arbitrary: opts evs)
  case Nil
  then show ?case by (simp add: pureIO_def)
next
  case (Cons i rest)
  show ?case
  proof (cases "Isolator_Value i")
    case (ResourceMemory limit)
    with Cons.prems have "bindIO (MaybeAddIsolator sne opts ''memory'' limit)
        (\<lambda>opts'. isolatorOpts sne opts' rest) = (Inr opts', evs)" by simp
    then obtain x t1 t2 where m: "MaybeAddIsolator sne opts ''memory'' limit = (Inr x, t1)"
      and r: "isolatorOpts sne x rest = (Inr opts', t2)"
      by (rule bindIO_Inr)
    from Cons.IH [OF r] MaybeAddIsolator_memory [OF m] ResourceMemory
    show ?thesis by (simp add: honoured_def isolatorOption_def)
  next
    case (ResourceCPU limit)
    with Cons.prems have "bindIO (MaybeAddIsolator sne opts ''cpu'' limit)
        (\<lambda>opts'. isolatorOpts sne opts' rest) = (Inr opts', evs)" by simp
    then obtain x t1 t2 where m: "MaybeAddIsolator sne opts ''cpu'' limit = (Inr x, t1)"
      and r: "isolatorOpts sne x rest = (Inr opts', t2)"
      by (rule bindIO_Inr)
    from Cons.IH [OF r] MaybeAddIsolator_cpu [OF m] ResourceCPU
    show ?thesis by (simp add: honoured_def isolatorOption_def)
  next
    case (LinuxCapabilitiesSet caps)
    with Cons.prems have "isolatorOpts sne opts rest = (Inr opts', evs)" by simp
    from Cons.IH [OF this] LinuxCapabilitiesSet show ?thesis by (simp add: honoured_def)
  next
    case OtherIsolatorValue
    with Cons.prems have "isolatorOpts sne opts rest = (Inr opts', evs)" by simp
    from Cons.IH [OF this] OtherIsolatorValue show ?thesis by (simp add: honoured_def)
  qed
qed

text \<open>Two CPU isolators around a memory isolator give three options.\<close>

theorem isolatorOpts_every_isolator_witness:
  "isolatorOpts (statNotExist demoHost) []
      [cpuIsolator halfCpu, memoryIsolator mem100M, cpuIsolator oneCpu]
     = (Inr [NewUnitOption ''Service'' ''CPUQuota'' ''50%'',
             NewUnitOption ''Service'' ''MemoryLimit'' ''104857600'',
             NewUnitOption ''Service'' ''CPUQuota'' ''100%''], [])
   \<and> map isolatorOption (filter (honoured (statNotExist demoHost))
        [cpuIsolator halfCpu, memoryIsolator mem100M, cpuIsolator oneCpu])
     = [NewUnitOption ''Service'' ''CPUQuota'' ''50%'',
        NewUnitOption ''Service'' ''MemoryLimit'' ''104857600'',
        NewUnitOption ''Service'' ''CPUQuota'' ''100%'']"
proof -
  have run: "isolatorOpts (statNotExist demoHost) []
      [cpuIsolator halfCpu, memoryIsolator mem100M, cpuIsolator oneCpu]
     = (Inr [NewUnitOption ''Service'' ''CPUQuota'' ''50%'',
             NewUnitOption ''Service'' ''MemoryLimit'' ''104857600'',
             NewUnitOption ''Service'' ''CPUQuota'' ''100%''], [])"
    by code_simp
  from isolatorOpts_every_isolator [OF run] run show ?thesis by simp
qed

section \<open>Socket-activated ports\<close>

lemma foldl_last_match:
  "foldl (\<lambda>port e. if N e = name then H e else port) a es =
     (case filter (\<lambda>e. N e = name) es of [] \<Rightarrow> a | x # xs \<Rightarrow> H (last (x # xs)))"
proof (induction es rule: rev_induct)
  case Nil
  then show ?case by simp
next
  case (snoc e es)
  then show ?case by (auto split: list.splits)
qed

lemma findHostPort_hostPortOf:
  "findHostPort pm name = (case hostPortOf pm name of None \<Rightarrow> 0 | Some hp \<Rightarrow> hp)"
  unfolding findHostPort_def hostPortOf_def
  by (simp add: foldl_last_match split: list.splits)

lemma listenPort_findHostPort:
  "listenPort pm sap =
     (if findHostPort pm (Port_Name sap) = 0 then Port_Port sap else findHostPort pm (Port_Name sap))"
  by (simp add: listenPort_def findHostPort_hostPortOf split: option.splits)

lemma socketOpts_Inr:
  "socketOpts pm so saps = (Inr so', evs) \<Longrightarrow>
     so' = so @ map (socketOption pm) saps
     \<and> (\<forall>sap \<in> set saps. Port_Protocol sap = ''tcp'' \<or> Port_Protocol sap = ''udp'')
     \<and> (\<forall>sap \<in> set saps. findHostPort pm (Port_Name sap) = 0 \<longrightarrow>
           LoggedNoHostPort (Port_Name sap) (Port_Port sap) \<in> set evs)"
proof (induction saps arbitrary: so evs)
  case Nil
  then show ?case by (simp add: pureIO_def)
next
  case (Cons sap saps)
  define proto where "proto = (if Port_Protocol sap = ''tcp'' then Some ''ListenStream''
            else if Port_Protocol sap = ''udp'' then Some ''ListenDatagram'' else None)"
  define first where "first =
     ((if findHostPort pm (Port_Name sap) = 0
       then (Inr (Port_Port sap), [LoggedNoHostPort (Port_Name sap) (Port_Port sap)])
       else pureIO (findHostPort pm (Port_Name sap))) :: nat io)"
  have unfolded: "socketOpts pm so (sap # saps) =
     (case proto of
        None \<Rightarrow> failIO (UnrecognizedProtocol (Port_Protocol sap))
      | Some d \<Rightarrow> bindIO first
          (\<lambda>port. socketOpts pm (so @ [NewUnitOption ''Socket'' d (Itoa (int port))]) saps))"
    by (simp add: proto_def first_def)
  from Cons.prems unfolded obtain d where d: "proto = Some d"
    by (cases proto) (auto simp: failIO_def)
  then have ok: "Port_Protocol sap = ''tcp'' \<or> Port_Protocol sap = ''udp''"
    and dir: "d = listenDirective sap"
    by (auto simp: proto_def listenDirective_def split: if_splits)
  from Cons.prems unfolded d have "bindIO first
      (\<lambda>port. socketOpts pm (so @ [NewUnitOption ''Socket'' d (Itoa (int port))]) saps)
        = (Inr so', evs)" by simp
  then obtain port t1 t2 where f: "first = (Inr port, t1)"
    and r: "socketOpts pm (so @ [NewUnitOption ''Socket'' d (Itoa (int port))]) saps = (Inr so', t2)"
    and evs: "evs = t1 @ t2"
    by (rule bindIO_Inr)
  from f have port: "port = listenPort pm sap"
    and log: "findHostPort pm (Port_Name sap) = 0 \<longrightarrow>
        LoggedNoHostPort (Port_Name sap) (Port_Port sap) \<in> set t1"
    by (auto simp: first_def pureIO_def listenPort_findHostPort split: if_splits)
  from Cons.IH [OF r] have ih: "so' = (so @ [NewUnitOption ''Socket'' d (Itoa (int port))]) @ map (socketOption pm) saps"
    "\<forall>sap \<in> set saps. Port_Protocol sap = ''tcp'' \<or> Port_Protocol sap = ''udp''"
    "\<forall>sap \<in> set saps. findHostPort pm (Port_Name sap) = 0 \<longrightarrow>
           LoggedNoHostPort (Port_Name sap) (Port_Port sap) \<in> set t2"
    by blast+
  have "so' = so @ map (socketOption pm) (sap # saps)"
    using ih(1) port dir by (simp add: socketOption_def)
  moreover have "\<forall>q \<in> set (sap # saps). Port_Protocol q = ''tcp'' \<or> Port_Protocol q = ''udp''"
    using ok ih(2) by simp
  moreover have "\<forall>q \<in> set (sap # saps). findHostPort pm (Port_Name q) = 0 \<longrightarrow>
           LoggedNoHostPort (Port_Name q) (Port_Port q) \<in> set evs"
    using log ih(3) evs by auto
  ultimately show ?case by blast
qed

lemma fst_bindIO: "fst m = Inr x \<Longrightarrow> fst (bindIO m f) = fst (f x)"
  by (cases m) (auto simp: bindIO_def split: prod.splits)

lemma socketOpts_step:
  assumes "Port_Protocol sap = ''tcp'' \<or> Port_Protocol sap = ''udp''"
  shows "fst (socketOpts pm so (sap # saps)) = fst (socketOpts pm (so @ [socketOption pm sap]) saps)"
proof -
  define first where "first =
     ((if findHostPort pm (Port_Name sap) = 0
       then (Inr (Port_Port sap), [LoggedNoHostPort (Port_Name sap) (Port_Port sap)])
       else pureIO (findHostPort pm (Port_Name sap))) :: nat io)"
  have f: "fst first = Inr (listenPort pm sap)"
    by (simp add: first_def pureIO_def listenPort_findHostPort)
  have "socketOpts pm so (sap # saps) =
      bindIO first (\<lambda>port. socketOpts pm
        (so @ [NewUnitOption ''Socket'' (listenDirective sap) (Itoa (int port))]) saps)"
    using assms by (auto simp: first_def listenDirective_def)
  then show ?thesis
    using fst_bindIO [OF f] by (simp add: socketOption_def)
qed

lemma socketOpts_total:
  "\<forall>sap \<in> set saps. Port_Protocol sap = ''tcp'' \<or> Port_Protocol sap = ''udp'' \<Longrightarrow>
   fst (socketOpts pm so saps) = Inr (so @ map (socketOption pm) saps)"
proof (induction saps arbitrary: so)
  case Nil
  then show ?case by (simp add: pureIO_def)
next
  case (Cons sap saps)
  then have ih: "fst (socketOpts pm (so @ [socketOption pm sap]) saps)
      = Inr ((so @ [socketOption pm sap]) @ map (socketOption pm) saps)"
    by simp
  from Cons.prems have "Port_Protocol sap = ''tcp'' \<or> Port_Protocol sap = ''udp''" by simp
  from socketOpts_step [OF this] ih show ?case by simp
qed

section \<open>From the loops to appToSystemd\<close>

lemma socketUnit_Inr:
  assumes "socketUnit h k p appName imgName saPorts opts = (Inr opts', tr)"
  obtains so evs rest where
    "socketOpts (Manifest p) (socketUnitHeader k appName imgName) saPorts = (Inr so, evs)"
    "tr = evs @ [OpenedFile (SocketUnitPath k (Root p) appName),
                 WroteUnit (SocketUnitPath k (Root p) appName) so] @ rest"
proof -
  from assms obtain so evs t2 where
    so: "socketOpts (Manifest p) (socketUnitHeader k appName imgName) saPorts = (Inr so, evs)"
    and rest: "bindIO (writeUnitFile h (SocketUnitPath k (Root p) appName) so
                    ''failed to create socket file'' ''failed to write socket unit file'')
            (\<lambda>_.
               bindIO (wrapIO ''failed to link socket want''
                         (perform (osFails h) ''symlink''
                            (Symlinked (Join [''..'', SocketUnitName k appName])
                               (SocketWantPath k (Root p) appName))))
                 (\<lambda>_. pureIO (opts @ [NewUnitOption ''Unit'' ''Requires''
                                        (SocketUnitName k appName)]))) = (Inr opts', t2)"
    and tr: "tr = evs @ t2"
    unfolding socketUnit_def by (rule bindIO_Inr)
  from rest obtain x t3 t4 where
    w: "writeUnitFile h (SocketUnitPath k (Root p) appName) so
          ''failed to create socket file'' ''failed to write socket unit file'' = (Inr x, t3)"
    and t2: "t2 = t3 @ t4"
    by (rule bindIO_Inr)
  from writeUnitFile_Inr [OF w] have "t3 = [OpenedFile (SocketUnitPath k (Root p) appName),
      WroteUnit (SocketUnitPath k (Root p) appName) so]" .
  with tr t2 have "tr = evs @ [OpenedFile (SocketUnitPath k (Root p) appName),
                 WroteUnit (SocketUnitPath k (Root p) appName) so] @ t4" by simp
  with so show ?thesis by (rule that)
qed

lemma appUnits_Inr:
  assumes run: "appUnits h k p ra interactive workDir u g binPath exec0 execRest = (Inr (), tr)"
    and sa: "filter Port_SocketActivated (Ports (RuntimeApp_App ra)) \<noteq> []"
  obtains so evs t1 t2 where
    "socketOpts (Manifest p)
       (socketUnitHeader k (RuntimeApp_Name ra) (AppNameToImageName p (RuntimeApp_Name ra)))
       (filter Port_SocketActivated (Ports (RuntimeApp_App ra))) = (Inr so, evs)"
    "tr = t1 @ evs @ [OpenedFile (SocketUnitPath k (Root p) (RuntimeApp_Name ra)),
                      WroteUnit (SocketUnitPath k (Root p) (RuntimeApp_Name ra)) so] @ t2"
proof -
  define saPorts where "saPorts = filter Port_SocketActivated (Ports (RuntimeApp_App ra))"
  define appName where "appName = RuntimeApp_Name ra"
  define imgName where "imgName = AppNameToImageName p appName"
  from run obtain s a1 a2 where
    r1: "bindIO (liftIO (eventHandlerOpts (Quote k)
                    (serviceOpts k p ra interactive workDir u g exec0 s)
                    (EventHandlers (RuntimeApp_App ra))))
          (\<lambda>opts1.
             bindIO (isolatorOpts (statNotExist h)
                       (opts1 @ [NewUnitOption ''Service'' ''TimeoutStartSec'' ''0''])
                       (Isolators (RuntimeApp_App ra)))
               (\<lambda>opts2.
                  bindIO (if length saPorts > 0
                          then socketUnit h k p appName imgName saPorts opts2
                          else pureIO opts2)
                    (\<lambda>opts3. finishService h k p appName opts3))) = (Inr (), a2)"
    and tr1: "tr = a1 @ a2"
    unfolding appUnits_def Let_def saPorts_def appName_def imgName_def by (rule bindIO_Inr)
  from r1 obtain opts1 b1 b2 where
    r2: "bindIO (isolatorOpts (statNotExist h)
                   (opts1 @ [NewUnitOption ''Service'' ''TimeoutStartSec'' ''0''])
                   (Isolators (RuntimeApp_App ra)))
           (\<lambda>opts2.
              bindIO (if length saPorts > 0
                      then socketUnit h k p appName imgName saPorts opts2
                      else pureIO opts2)
                (\<lambda>opts3. finishService h k p appName opts3)) = (Inr (), b2)"
    and tr2: "a2 = b1 @ b2"
    by (rule bindIO_Inr)
  from r2 obtain opts2 c1 c2 where
    r3: "bindIO (if length saPorts > 0
                 then socketUnit h k p appName imgName saPorts opts2
                 else pureIO opts2)
           (\<lambda>opts3. finishService h k p appName opts3) = (Inr (), c2)"
    and tr3: "b2 = c1 @ c2"
    by (rule bindIO_Inr)
  from r3 obtain opts3 d1 d2 where
    r4: "(if length saPorts > 0 then socketUnit h k p appName imgName saPorts opts2
          else pureIO opts2) = (Inr opts3, d1)"
    and tr4: "c2 = d1 @ d2"
    by (rule bindIO_Inr)
  from sa have "length saPorts > 0" by (simp add: saPorts_def)
  with r4 have "socketUnit h k p appName imgName saPorts opts2 = (Inr opts3, d1)" by simp
  then obtain so evs rest where
    so: "socketOpts (Manifest p) (socketUnitHeader k appName imgName) saPorts = (Inr so, evs)"
    and d1: "d1 = evs @ [OpenedFile (SocketUnitPath k (Root p) appName),
                 WroteUnit (SocketUnitPath k (Root p) appName) so] @ rest"
    by (rule socketUnit_Inr)
  have "tr = (a1 @ b1 @ c1) @ evs @ [OpenedFile (SocketUnitPath k (Root p) appName),
                 WroteUnit (SocketUnitPath k (Root p) appName) so] @ (rest @ d2)"
    using tr1 tr2 tr3 tr4 d1 by simp
  with so show ?thesis
    unfolding saPorts_def appName_def imgName_def by (rule that)
qed

lemma appToSystemd_Inr:
  assumes run: "appToSystemd h k p ra interactive flavor privateUsers = (Inr (), tr)"
  obtains workDir u g binPath exec0 execRest t1 t2 where
    "appUnits h k p ra interactive workDir u g binPath exec0 execRest = (Inr (), t2)"
    "tr = t1 @ t2"
    "Exec (RuntimeApp_App ra) = exec0 # execRest"
proof -
  from run obtain exec0 execRest where ex: "Exec (RuntimeApp_App ra) = exec0 # execRest"
    by (cases "Exec (RuntimeApp_App ra)") (auto simp: appToSystemd_def Let_def failIO_def)
  define workDir where "workDir = (if WorkingDirectory (RuntimeApp_App ra) \<noteq> []
      then WorkingDirectory (RuntimeApp_App ra) else ''/'')"
  define env where "env = (if MetadataServiceURL p \<noteq> []
      then envSet (envSet (Environment (RuntimeApp_App ra)) ''AC_APP_NAME'' (RuntimeApp_Name ra))
             ''AC_METADATA_URL'' (MetadataServiceURL p)
      else envSet (Environment (RuntimeApp_App ra)) ''AC_APP_NAME'' (RuntimeApp_Name ra))"
  have "appToSystemd h k p ra interactive flavor privateUsers =
      bindIO (appPrepare h k p ra env exec0 privateUsers)
        (\<lambda>(u, g, binPath). appUnits h k p ra interactive workDir u g binPath exec0 execRest)"
    by (simp add: appToSystemd_def Let_def ex workDir_def env_def)
  with run obtain x t1 t2 where
    "(case x of (u, g, binPath) \<Rightarrow>
        appUnits h k p ra interactive workDir u g binPath exec0 execRest) = (Inr (), t2)"
    and tr: "tr = t1 @ t2"
    by (auto elim: bindIO_Inr)
  moreover obtain u g binPath where "x = (u, g, binPath)" by (cases x) auto
  ultimately have "appUnits h k p ra interactive workDir u g binPath exec0 execRest = (Inr (), t2)"
    by simp
  then show ?thesis using tr ex by (rule that)
qed

lemma appToSystemd_socket:
  assumes run: "appToSystemd h k p ra interactive flavor privateUsers = (Inr (), tr)"
    and sap: "sap \<in> set (Ports (RuntimeApp_App ra))" "Port_SocketActivated sap"
  obtains so evs where
    "WroteUnit (SocketUnitPath k (Root p) (RuntimeApp_Name ra)) so \<in> set tr"
    "set evs \<subseteq> set tr"
    "socketOpts (Manifest p)
       (socketUnitHeader k (RuntimeApp_Name ra) (AppNameToImageName p (RuntimeApp_Name ra)))
       (filter Port_SocketActivated (Ports (RuntimeApp_App ra))) = (Inr so, evs)"
proof -
  from sap have ne: "filter Port_SocketActivated (Ports (RuntimeApp_App ra)) \<noteq> []"
    by (auto simp: filter_empty_conv)
  from run obtain workDir u g binPath exec0 execRest t1 t2 where
    units: "appUnits h k p ra interactive workDir u g binPath exec0 execRest = (Inr (), t2)"
    and tr: "tr = t1 @ t2"
    by (rule appToSystemd_Inr)
  from units ne obtain so evs s1 s2 where
    so: "socketOpts (Manifest p)
       (socketUnitHeader k (RuntimeApp_Name ra) (AppNameToImageName p (RuntimeApp_Name ra)))
       (filter Port_SocketActivated (Ports (RuntimeApp_App ra))) = (Inr so, evs)"
    and t2: "t2 = s1 @ evs @ [OpenedFile (SocketUnitPath k (Root p) (RuntimeApp_Name ra)),
                      WroteUnit (SocketUnitPath k (Root p) (RuntimeApp_Name ra)) so] @ s2"
    by (rule appUnits_Inr)
  have "WroteUnit (SocketUnitPath k (Root p) (RuntimeApp_Name ra)) so \<in> set tr"
    using tr t2 by simp
  moreover have "set evs \<subseteq> set tr" using tr t2 by auto
  ultimately show ?thesis using so by (rule that)
qed

section \<open>Socket-activated ports: results\<close>



text \<open>
  Claim C8, as stated: the port written is the host port that the pod manifest
  declares for the name, and the port of the image only when no entry of the pod
  manifest has the name. It fails when the entry declares the host port 0: an entry
  has the name, and yet the port of the image, 80, is written and the warning logged.
\<close>

theorem appToSystemd_host_port_zero:
  "hostPortOf (Manifest (demoPod [\<lparr>ExposedPort_Name = ''http'', ExposedPort_HostPort = 0\<rparr>]))
      (Port_Name (httpPort ''tcp'')) = Some 0
   \<and> optionValues ''Socket'' ''ListenStream''
       (unitOptsWritten ''/pod/stage1/rootfs/usr/lib/systemd/system/web.socket''
          (snd (appToSystemd demoHost demoPkgs
             (demoPod [\<lparr>ExposedPort_Name = ''http'', ExposedPort_HostPort = 0\<rparr>])
             (webApp (demoApp\<lparr>Ports := [httpPort ''tcp'']\<rparr>)) False ''src'' [])))
     = [''80'']
   \<and> LoggedNoHostPort ''http'' 80
       \<in> set (snd (appToSystemd demoHost demoPkgs
             (demoPod [\<lparr>ExposedPort_Name = ''http'', ExposedPort_HostPort = 0\<rparr>])
             (webApp (demoApp\<lparr>Ports := [httpPort ''tcp'']\<rparr>)) False ''src'' []))"
  by code_simp

text \<open>
  Claim C8, amended: for every socket-activated port, the port written into the socket
  unit is the host port of the last entry of the pod manifest with the port's name,
  when there is such an entry and its host port is not 0; when no entry has the name
  or that host port is 0, the port of the image is written and a warning is logged.
  The loop over the ports fails for no port whose protocol is \<^verbatim>\<open>tcp\<close> or \<^verbatim>\<open>udp\<close>,
  whatever the host ports are.
\<close>

theorem appToSystemd_listen_port:
  assumes run: "appToSystemd h k p ra interactive flavor privateUsers = (r, tr)"
    and sap: "sap \<in> set (Ports (RuntimeApp_App ra))" "Port_SocketActivated sap"
  shows "(r = Inr () \<longrightarrow>
          (\<exists>so. WroteUnit (SocketUnitPath k (Root p) (RuntimeApp_Name ra)) so \<in> set tr
             \<and> NewUnitOption ''Socket'' (listenDirective sap)
                  (Itoa (int (listenPort (Manifest p) sap))) \<in> set so)
          \<and> (hostPortOf (Manifest p) (Port_Name sap) = None
               \<or> hostPortOf (Manifest p) (Port_Name sap) = Some 0
             \<longrightarrow> LoggedNoHostPort (Port_Name sap) (Port_Port sap) \<in> set tr))
    \<and> ((\<forall>q \<in> set (filter Port_SocketActivated (Ports (RuntimeApp_App ra))).
            Port_Protocol q = ''tcp'' \<or> Port_Protocol q = ''udp'')
        \<longrightarrow> fst (socketOpts (Manifest p) sockopts
                   (filter Port_SocketActivated (Ports (RuntimeApp_App ra))))
            = Inr (sockopts @ map (socketOption (Manifest p))
                     (filter Port_SocketActivated (Ports (RuntimeApp_App ra)))))"
proof -
  have written: "(\<exists>so. WroteUnit (SocketUnitPath k (Root p) (RuntimeApp_Name ra)) so \<in> set tr
             \<and> NewUnitOption ''Socket'' (listenDirective sap)
                  (Itoa (int (listenPort (Manifest p) sap))) \<in> set so)
          \<and> (hostPortOf (Manifest p) (Port_Name sap) = None
               \<or> hostPortOf (Manifest p) (Port_Name sap) = Some 0
             \<longrightarrow> LoggedNoHostPort (Port_Name sap) (Port_Port sap) \<in> set tr)"
    if "r = Inr ()"
  proof -
    from run that have "appToSystemd h k p ra interactive flavor privateUsers = (Inr (), tr)"
      by simp
    from this sap obtain so evs where
      w: "WroteUnit (SocketUnitPath k (Root p) (RuntimeApp_Name ra)) so \<in> set tr"
      and evs: "set evs \<subseteq> set tr"
      and so: "socketOpts (Manifest p)
         (socketUnitHeader k (RuntimeApp_Name ra) (AppNameToImageName p (RuntimeApp_Name ra)))
         (filter Port_SocketActivated (Ports (RuntimeApp_App ra))) = (Inr so, evs)"
      by (rule appToSystemd_socket)
    from sap have mem: "sap \<in> set (filter Port_SocketActivated (Ports (RuntimeApp_App ra)))"
      by simp
    from socketOpts_Inr [OF so] mem
    have opt: "socketOption (Manifest p) sap \<in> set so"
      and log: "findHostPort (Manifest p) (Port_Name sap) = 0 \<longrightarrow>
        LoggedNoHostPort (Port_Name sap) (Port_Port sap) \<in> set evs"
      by auto
    have "hostPortOf (Manifest p) (Port_Name sap) = None
           \<or> hostPortOf (Manifest p) (Port_Name sap) = Some 0
         \<longrightarrow> findHostPort (Manifest p) (Port_Name sap) = 0"
      by (auto simp: findHostPort_hostPortOf)
    with log evs have "hostPortOf (Manifest p) (Port_Name sap) = None
           \<or> hostPortOf (Manifest p) (Port_Name sap) = Some 0
         \<longrightarrow> LoggedNoHostPort (Port_Name sap) (Port_Port sap) \<in> set tr"
      by auto
    moreover from w opt
    have "\<exists>so. WroteUnit (SocketUnitPath k (Root p) (RuntimeApp_Name ra)) so \<in> set tr
             \<and> NewUnitOption ''Socket'' (listenDirective sap)
                  (Itoa (int (listenPort (Manifest p) sap))) \<in> set so"
      unfolding socketOption_def by blast
    ultimately show ?thesis by blast
  qed
  moreover have "(\<forall>q \<in> set (filter Port_SocketActivated (Ports (RuntimeApp_App ra))).
            Port_Protocol q = ''tcp'' \<or> Port_Protocol q = ''udp'')
        \<longrightarrow> fst (socketOpts (Manifest p) sockopts
                   (filter Port_SocketActivated (Ports (RuntimeApp_App ra))))
            = Inr (sockopts @ map (socketOption (Manifest p))
                     (filter Port_SocketActivated (Ports (RuntimeApp_App ra))))"
    using socketOpts_total by blast
  ultimately show ?thesis by blast
qed

text \<open>The host port 8080 for the port of the image 80.\<close>

theorem appToSystemd_listen_port_witness:
  "fst (appToSystemd demoHost demoPkgs
          (demoPod [\<lparr>ExposedPort_Name = ''http'', ExposedPort_HostPort = 8080\<rparr>])
          (webApp (demoApp\<lparr>Ports := [httpPort ''tcp'']\<rparr>)) False ''src'' []) = Inr ()
   \<and> (\<exists>so. WroteUnit (SocketUnitPath demoPkgs ''/pod'' ''web'') so
          \<in> set (snd (appToSystemd demoHost demoPkgs
                (demoPod [\<lparr>ExposedPort_Name = ''http'', ExposedPort_HostPort = 8080\<rparr>])
                (webApp (demoApp\<lparr>Ports := [httpPort ''tcp'']\<rparr>)) False ''src'' []))
        \<and> NewUnitOption ''Socket'' ''ListenStream'' ''8080'' \<in> set so)"
proof -
  define pod where "pod = demoPod [\<lparr>ExposedPort_Name = ''http'', ExposedPort_HostPort = 8080\<rparr>]"
  define ra where "ra = webApp (demoApp\<lparr>Ports := [httpPort ''tcp'']\<rparr>)"
  define tr where "tr = snd (appToSystemd demoHost demoPkgs pod ra False ''src'' [])"
  have ok: "fst (appToSystemd demoHost demoPkgs pod ra False ''src'' []) = Inr ()"
    unfolding pod_def ra_def by code_simp
  then have run: "appToSystemd demoHost demoPkgs pod ra False ''src'' [] = (Inr (), tr)"
    by (simp add: tr_def prod_eq_iff)
  have p: "httpPort ''tcp'' \<in> set (Ports (RuntimeApp_App ra))" "Port_SocketActivated (httpPort ''tcp'')"
    by (simp_all add: ra_def webApp_def demoApp_def httpPort_def)
  have names: "RuntimeApp_Name ra = ''web''" "Root pod = ''/pod''"
    by (simp_all add: ra_def pod_def webApp_def demoPod_def)
  have dir: "listenDirective (httpPort ''tcp'') = ''ListenStream''" by code_simp
  have port: "Itoa (int (listenPort (Manifest pod) (httpPort ''tcp''))) = ''8080''"
    unfolding pod_def by code_simp
  from appToSystemd_listen_port [OF run p]
  have "\<exists>so. WroteUnit (SocketUnitPath demoPkgs (Root pod) (RuntimeApp_Name ra)) so \<in> set tr
           \<and> NewUnitOption ''Socket'' (listenDirective (httpPort ''tcp''))
                (Itoa (int (listenPort (Manifest pod) (httpPort ''tcp'')))) \<in> set so"
    by blast
  then have "\<exists>so. WroteUnit (SocketUnitPath demoPkgs ''/pod'' ''web'') so \<in> set tr
           \<and> NewUnitOption ''Socket'' ''ListenStream'' ''8080'' \<in> set so"
    unfolding names dir port .
  with ok show ?thesis unfolding tr_def pod_def ra_def by simp
qed

section \<open>The guard on the executable\<close>

lemma appToSystemd_empty_exec:
  "Exec (RuntimeApp_App ra) = [] \<Longrightarrow>
   appToSystemd h k p ra interactive flavor privateUsers
     = (Inl (EmptyExec (AppNameToImageName p (RuntimeApp_Name ra))), [])"
  by (simp add: appToSystemd_def Let_def failIO_def)

lemma quoteExec_app_exec: "\<exists>s. quoteExec quote (binPath # execRest) = Inr s"
  by (simp add: quoteExec_def)

text \<open>
  Claim C9. With an empty \<^verbatim>\<open>Exec\<close>, \<open>appToSystemd\<close> returns its error before it
  writes anything, and the command line of the app that it passes to \<open>quoteExec\<close> is
  never empty (the two facts above). The panic of \<open>quoteExec\<close> can still be reached:
  the command line of an event handler is passed to \<open>quoteExec\<close> as it is, and for
  an app with a proper \<^verbatim>\<open>Exec\<close> and a \<^verbatim>\<open>pre-start\<close> handler without a command line
  \<open>appToSystemd\<close> ends in that panic.
\<close>

theorem appToSystemd_event_handler_panic:
  "Exec (RuntimeApp_App (webApp (demoApp\<lparr>EventHandlers :=
       [\<lparr>EventHandler_Name = ''pre-start'', EventHandler_Exec = []\<rparr>]\<rparr>))) = [''/bin/server'', ''--port'', ''80'']
   \<and> fst (appToSystemd demoHost demoPkgs (demoPod [])
        (webApp (demoApp\<lparr>EventHandlers :=
           [\<lparr>EventHandler_Name = ''pre-start'', EventHandler_Exec = []\<rparr>]\<rparr>))
        False ''src'' []) = Inl (Panic ''empty exec'')"
  by code_simp

end
